theory Spec2Isabelle
  imports Main "HOL-Library.Word"
begin

section \<open>JetStream client core of nats.go (js.go): a shallow embedding\<close>

text \<open>
  The embedding follows js.go function by function. Go pointers that the code tests
  against nil are options, Go's \<open>(value, error)\<close> results are pairs or sums, and
  everything the transport connection answers (replies, errors, channel deliveries) is
  an argument of the model, so that every theorem holds for every behaviour of the
  server.
\<close>

subsection \<open>Basic types\<close>

type_synonym bytes = string
type_synonym u64 = "64 word"

text \<open>\<open>time.Duration\<close> is an \<open>int64\<close> count of nanoseconds; comparisons are signed.\<close>

type_synonym duration = "64 word"

definition Millisecond :: duration where
  "Millisecond = 1000000"

definition Second :: duration where
  "Second = 1000000000"

definition defaultRequestWait :: duration where
  "defaultRequestWait = 5 * Second"

text \<open>
  A \<open>context.Context\<close>: one supplied by the caller (opaque, named by a number) or the
  one Fetch derives with \<open>context.WithTimeout(context.Background(), ttl)\<close>.
\<close>

datatype ctx = UserContext nat | WithTimeout duration

text \<open>The argument of a \<open>fmt.Errorf\<close> call, kept unformatted.\<close>

datatype fmt_arg = ArgInt int | ArgBytes bytes

text \<open>
  Error values. The sentinels are compared by identity in the source, so each is a
  constructor of its own; \<open>errors.New\<close> and \<open>fmt.Errorf\<close> build fresh values that equal
  no sentinel; \<open>TransportError\<close> stands for any other error the connection returns.
\<close>

datatype error =
    ErrContextAndTimeout
  | ErrInvalidJSAck
  | ErrNoStreamResponse
  | ErrNoResponders
  | ErrBadSubscription
  | ErrTypeSubscription
  | ErrTimeout
  | ErrMsgNotBound
  | ErrMsgNoReply
  | ErrNotJSMessage
  | errNoMessages
  | context_Canceled
  | context_DeadlineExceeded
  | errors_New string
  | fmt_Errorf string fmt_arg
  | TransportError nat

text \<open>A Go call returns, panics, or blocks forever.\<close>

datatype 'a exec = Returns 'a | Panics | Blocks

subsection \<open>Enumerations and their JSON encodings\<close>

text \<open>
  The six enumerations are Go \<open>int\<close> types, so a value outside the declared constants
  exists and the encoders have a \<open>default\<close> branch for it.
\<close>

type_synonym AckPolicy = int
type_synonym ReplayPolicy = int
type_synonym DeliverPolicy = int
type_synonym RetentionPolicy = int
type_synonym DiscardPolicy = int
type_synonym StorageType = int

definition AckNonePolicy :: AckPolicy where "AckNonePolicy = 0"
definition AckAllPolicy :: AckPolicy where "AckAllPolicy = 1"
definition AckExplicitPolicy :: AckPolicy where "AckExplicitPolicy = 2"
definition ackPolicyNotSet :: AckPolicy where "ackPolicyNotSet = 99"

definition ReplayInstantPolicy :: ReplayPolicy where "ReplayInstantPolicy = 0"
definition ReplayOriginalPolicy :: ReplayPolicy where "ReplayOriginalPolicy = 1"

definition DeliverAllPolicy :: DeliverPolicy where "DeliverAllPolicy = 0"
definition DeliverLastPolicy :: DeliverPolicy where "DeliverLastPolicy = 1"
definition DeliverNewPolicy :: DeliverPolicy where "DeliverNewPolicy = 2"
definition DeliverByStartSequencePolicy :: DeliverPolicy where "DeliverByStartSequencePolicy = 3"
definition DeliverByStartTimePolicy :: DeliverPolicy where "DeliverByStartTimePolicy = 4"

definition LimitsPolicy :: RetentionPolicy where "LimitsPolicy = 0"
definition InterestPolicy :: RetentionPolicy where "InterestPolicy = 1"
definition WorkQueuePolicy :: RetentionPolicy where "WorkQueuePolicy = 2"

definition DiscardOld :: DiscardPolicy where "DiscardOld = 0"
definition DiscardNew :: DiscardPolicy where "DiscardNew = 1"

definition FileStorage :: StorageType where "FileStorage = 0"
definition MemoryStorage :: StorageType where "MemoryStorage = 1"

definition limitsPolicyString :: string where "limitsPolicyString = ''limits''"
definition interestPolicyString :: string where "interestPolicyString = ''interest''"
definition workQueuePolicyString :: string where "workQueuePolicyString = ''workqueue''"
definition memoryStorageString :: string where "memoryStorageString = ''memory''"
definition fileStorageString :: string where "fileStorageString = ''file''"

text \<open>\<open>jsonString(s)\<close> is \<open>"\"" + s + "\""\<close>; the double quote is the byte 0x22.\<close>

definition jsonString :: "string \<Rightarrow> string" where
  "jsonString s = [CHR 0x22] @ s @ [CHR 0x22]"

text \<open>
  \<open>json.Marshal\<close> of a Go string, on the tags this file encodes: they hold lower-case
  letters and underscores only, none of which encoding/json escapes, so the output is the
  tag between double quotes and the error is nil.
\<close>

definition json_Marshal_string :: "string \<Rightarrow> error + bytes" where
  "json_Marshal_string s = Inr ([CHR 0x22] @ s @ [CHR 0x22])"

text \<open>
  \<open>strings.ToLower\<close> maps the ASCII letters A-Z to a-z. On bytes outside ASCII Go works
  rune by rune; no rune outside ASCII lower-cases to a letter of \<open>"old"\<close> or \<open>"new"\<close>, so the
  comparisons DiscardPolicy.UnmarshalJSON makes come out the same.
\<close>

definition toLower_char :: "char \<Rightarrow> char" where
  "toLower_char c =
     (if (65::nat) \<le> of_char c \<and> of_char c \<le> (90::nat)
      then char_of (of_char c + (32::nat)) else c)"

definition strings_ToLower :: "string \<Rightarrow> string" where
  "strings_ToLower s = map toLower_char s"

text \<open>
  The decoders have a pointer receiver: the model takes the value \<open>*p\<close> before the
  call and returns the error with the value after it.
\<close>

definition AckPolicy_UnmarshalJSON :: "AckPolicy \<Rightarrow> bytes \<Rightarrow> error option \<times> AckPolicy" where
  "AckPolicy_UnmarshalJSON p data =
     (if data = jsonString ''none'' then (None, AckNonePolicy)
      else if data = jsonString ''all'' then (None, AckAllPolicy)
      else if data = jsonString ''explicit'' then (None, AckExplicitPolicy)
      else (Some (fmt_Errorf ''can not unmarshal %q'' (ArgBytes data)), p))"

definition AckPolicy_MarshalJSON :: "AckPolicy \<Rightarrow> error + bytes" where
  "AckPolicy_MarshalJSON p =
     (if p = AckNonePolicy then json_Marshal_string ''none''
      else if p = AckAllPolicy then json_Marshal_string ''all''
      else if p = AckExplicitPolicy then json_Marshal_string ''explicit''
      else Inl (fmt_Errorf ''unknown acknowlegement policy %v'' (ArgInt p)))"

definition ReplayPolicy_UnmarshalJSON :: "ReplayPolicy \<Rightarrow> bytes \<Rightarrow> error option \<times> ReplayPolicy" where
  "ReplayPolicy_UnmarshalJSON p data =
     (if data = jsonString ''instant'' then (None, ReplayInstantPolicy)
      else if data = jsonString ''original'' then (None, ReplayOriginalPolicy)
      else (Some (fmt_Errorf ''can not unmarshal %q'' (ArgBytes data)), p))"

definition ReplayPolicy_MarshalJSON :: "ReplayPolicy \<Rightarrow> error + bytes" where
  "ReplayPolicy_MarshalJSON p =
     (if p = ReplayOriginalPolicy then json_Marshal_string ''original''
      else if p = ReplayInstantPolicy then json_Marshal_string ''instant''
      else Inl (fmt_Errorf ''unknown replay policy %v'' (ArgInt p)))"

text \<open>The switch of DeliverPolicy.UnmarshalJSON has no default case: it returns nil.\<close>

definition DeliverPolicy_UnmarshalJSON :: "DeliverPolicy \<Rightarrow> bytes \<Rightarrow> error option \<times> DeliverPolicy" where
  "DeliverPolicy_UnmarshalJSON p data =
     (if data = jsonString ''all'' \<or> data = jsonString ''undefined'' then (None, DeliverAllPolicy)
      else if data = jsonString ''last'' then (None, DeliverLastPolicy)
      else if data = jsonString ''new'' then (None, DeliverNewPolicy)
      else if data = jsonString ''by_start_sequence'' then (None, DeliverByStartSequencePolicy)
      else if data = jsonString ''by_start_time'' then (None, DeliverByStartTimePolicy)
      else (None, p))"

definition DeliverPolicy_MarshalJSON :: "DeliverPolicy \<Rightarrow> error + bytes" where
  "DeliverPolicy_MarshalJSON p =
     (if p = DeliverAllPolicy then json_Marshal_string ''all''
      else if p = DeliverLastPolicy then json_Marshal_string ''last''
      else if p = DeliverNewPolicy then json_Marshal_string ''new''
      else if p = DeliverByStartSequencePolicy then json_Marshal_string ''by_start_sequence''
      else if p = DeliverByStartTimePolicy then json_Marshal_string ''by_start_time''
      else Inl (fmt_Errorf ''unknown deliver policy %v'' (ArgInt p)))"

definition RetentionPolicy_MarshalJSON :: "RetentionPolicy \<Rightarrow> error + bytes" where
  "RetentionPolicy_MarshalJSON rp =
     (if rp = LimitsPolicy then json_Marshal_string limitsPolicyString
      else if rp = InterestPolicy then json_Marshal_string interestPolicyString
      else if rp = WorkQueuePolicy then json_Marshal_string workQueuePolicyString
      else Inl (fmt_Errorf ''can not marshal %v'' (ArgInt rp)))"

definition RetentionPolicy_UnmarshalJSON :: "RetentionPolicy \<Rightarrow> bytes \<Rightarrow> error option \<times> RetentionPolicy" where
  "RetentionPolicy_UnmarshalJSON rp data =
     (if data = jsonString limitsPolicyString then (None, LimitsPolicy)
      else if data = jsonString interestPolicyString then (None, InterestPolicy)
      else if data = jsonString workQueuePolicyString then (None, WorkQueuePolicy)
      else (Some (fmt_Errorf ''can not unmarshal %q'' (ArgBytes data)), rp))"

definition DiscardPolicy_MarshalJSON :: "DiscardPolicy \<Rightarrow> error + bytes" where
  "DiscardPolicy_MarshalJSON dp =
     (if dp = DiscardOld then json_Marshal_string ''old''
      else if dp = DiscardNew then json_Marshal_string ''new''
      else Inl (fmt_Errorf ''can not marshal %v'' (ArgInt dp)))"

definition DiscardPolicy_UnmarshalJSON :: "DiscardPolicy \<Rightarrow> bytes \<Rightarrow> error option \<times> DiscardPolicy" where
  "DiscardPolicy_UnmarshalJSON dp data =
     (if strings_ToLower data = jsonString ''old'' then (None, DiscardOld)
      else if strings_ToLower data = jsonString ''new'' then (None, DiscardNew)
      else (Some (fmt_Errorf ''can not unmarshal %q'' (ArgBytes data)), dp))"

definition StorageType_MarshalJSON :: "StorageType \<Rightarrow> error + bytes" where
  "StorageType_MarshalJSON st =
     (if st = MemoryStorage then json_Marshal_string memoryStorageString
      else if st = FileStorage then json_Marshal_string fileStorageString
      else Inl (fmt_Errorf ''can not marshal %v'' (ArgInt st)))"

definition StorageType_UnmarshalJSON :: "StorageType \<Rightarrow> bytes \<Rightarrow> error option \<times> StorageType" where
  "StorageType_UnmarshalJSON st data =
     (if data = jsonString memoryStorageString then (None, MemoryStorage)
      else if data = jsonString fileStorageString then (None, FileStorage)
      else (Some (fmt_Errorf ''can not unmarshal %q'' (ArgBytes data)), st))"

text \<open>
  Encoding a value and decoding the produced bytes into a variable that held \<open>q\<close>:
  the error of either step, or the decoded value.
\<close>

definition roundtrip ::
  "(int \<Rightarrow> error + bytes) \<Rightarrow> (int \<Rightarrow> bytes \<Rightarrow> error option \<times> int) \<Rightarrow> int \<Rightarrow> int \<Rightarrow> error + int" where
  "roundtrip marshal unmarshal q p =
     (case marshal p of
        Inl e \<Rightarrow> Inl e
      | Inr data \<Rightarrow>
          (case unmarshal q data of
             (Some e, _) \<Rightarrow> Inl e
           | (None, p') \<Rightarrow> Inr p'))"

subsection \<open>Messages, subscriptions and the JetStream handle\<close>

text \<open>
  Record fields keep the names of the Go struct fields; where two structs share a field
  name, or the name is a keyword of Isabelle, the record's name is prefixed (\<open>pub_ctx\<close>,
  \<open>pull_ctx\<close>, \<open>js_ctx\<close>, \<open>sub_typ\<close>, ...).
\<close>

record jsOpts =
  js_ctx :: "ctx option"
  pre :: string
  wait :: duration
  direct :: bool

record js =
  js_opts :: jsOpts

record jsSub =
  jsi_js :: js
  consumer :: string
  stream :: string
  deliver :: string
  pull :: bool
  durable :: bool
  attached :: bool

text \<open>
  Modelled from the spec: the type tag of a subscription, declared in nats.go outside
  js.go; the spec lists push-async, push-sync, push-channel and pull.
\<close>

datatype SubscriptionType =
  AsyncSubscription | SyncSubscription | ChanSubscription | PullSubscription

record Subscription =
  sub_Subject :: string
  sub_typ :: SubscriptionType
  jsi :: "jsSub option"

text \<open>
  \<open>http.Header\<close> is a Go map from canonical header names to value lists; a nil map is
  \<open>None\<close>. Every key js.go uses is already in canonical form, so \<open>Get\<close> and \<open>Set\<close>
  address the map at the key itself. \<open>Get\<close> on a nil map answers the empty string,
  \<open>Set\<close> on a nil map panics.
\<close>

type_synonym header = "string \<rightharpoonup> string list"

definition Header_Get :: "header option \<Rightarrow> string \<Rightarrow> string" where
  "Header_Get h k =
     (case h of
        None \<Rightarrow> []
      | Some hm \<Rightarrow> (case hm k of None \<Rightarrow> [] | Some [] \<Rightarrow> [] | Some (v # _) \<Rightarrow> v))"

definition Header_Set :: "header option \<Rightarrow> string \<Rightarrow> string \<Rightarrow> header option exec" where
  "Header_Set h k v =
     (case h of None \<Rightarrow> Panics | Some hm \<Rightarrow> Returns (Some (hm(k \<mapsto> [v]))))"

text \<open>The value list a header map holds at a key, Go's \<open>h[k]\<close>; nil when absent.\<close>

definition Header_values :: "header option \<Rightarrow> string \<Rightarrow> string list option" where
  "Header_values h k = (case h of None \<Rightarrow> None | Some hm \<Rightarrow> hm k)"

record Msg =
  Subject :: string
  Reply :: string
  Header :: "header option"
  Data :: bytes
  Sub :: "Subscription option"
  ackd :: "32 word"

definition MsgIdHdr :: string where "MsgIdHdr = ''Nats-Msg-Id''"
definition ExpectedStreamHdr :: string where "ExpectedStreamHdr = ''Nats-Expected-Stream''"
definition ExpectedLastSeqHdr :: string where "ExpectedLastSeqHdr = ''Nats-Expected-Last-Sequence''"
definition ExpectedLastMsgIdHdr :: string where "ExpectedLastMsgIdHdr = ''Nats-Expected-Last-Msg-Id''"

definition AckAck :: bytes where "AckAck = ''+ACK''"
definition AckNak :: bytes where "AckNak = ''-NAK''"
definition AckProgress :: bytes where "AckProgress = ''+WPI''"
definition AckNext :: bytes where "AckNext = ''+NXT''"
definition AckTerm :: bytes where "AckTerm = ''+TERM''"

text \<open>
  The calls a function makes on the connection or on the management API, in order. The
  model of every function returns this list with its result, so that "no request is
  issued" is a statement about it.
\<close>

datatype nc_call =
    RequestMsg Msg duration
  | RequestMsgWithContext "ctx option" Msg
  | Request string bytes duration
  | RequestWithContext ctx string bytes
  | oldRequestWithContext ctx string bytes
  | Publish string bytes
  | publish string string bytes
  | subscribe string
  | AutoUnsubscribe int
  | Unsubscribe
  | DeleteConsumer string string

subsection \<open>Unsubscribe\<close>

text \<open>
  \<open>jsSub.unsubscribe(drainMode)\<close>. \<open>js.DeleteConsumer\<close> (jsm.go) issues the
  CONSUMER.DELETE request; \<open>del\<close> is the error it returns.
\<close>

definition unsubscribe :: "jsSub \<Rightarrow> bool \<Rightarrow> error option \<Rightarrow> nc_call list \<times> error option" where
  "unsubscribe jsi' drainMode del =
     (if drainMode \<and> (durable jsi' \<or> attached jsi') then ([], None)
      else if direct (js_opts (jsi_js jsi')) then ([], None)
      else ([DeleteConsumer (stream jsi') (consumer jsi')], del))"

subsection \<open>Publish options and PublishMsg\<close>

record pubOpts =
  pub_ctx :: "ctx option"
  pub_ttl :: duration
  pub_id :: string
  pub_lid :: string
  pub_str :: string
  pub_seq :: u64

text \<open>
  The values that implement \<open>PubOpt\<close> in js.go: MsgId, ExpectStream, ExpectLastSequence,
  ExpectLastMsgId, AckWait and ContextOpt (built by \<open>Context(ctx)\<close>; the option wraps its
  argument, so the stored interface value is never nil).
\<close>

datatype PubOpt =
    MsgId string
  | ExpectStream string
  | ExpectLastSequence u64
  | ExpectLastMsgId string
  | AckWait duration
  | ContextOpt ctx

fun configurePublish :: "PubOpt \<Rightarrow> pubOpts \<Rightarrow> error option \<times> pubOpts" where
  "configurePublish (MsgId i) po = (None, po\<lparr>pub_id := i\<rparr>)"
| "configurePublish (ExpectStream s) po = (None, po\<lparr>pub_str := s\<rparr>)"
| "configurePublish (ExpectLastSequence n) po = (None, po\<lparr>pub_seq := n\<rparr>)"
| "configurePublish (ExpectLastMsgId i) po = (None, po\<lparr>pub_lid := i\<rparr>)"
| "configurePublish (AckWait t) po = (None, po\<lparr>pub_ttl := t\<rparr>)"
| "configurePublish (ContextOpt c) po = (None, po\<lparr>pub_ctx := Some c\<rparr>)"

text \<open>The zero value \<open>var o pubOpts\<close>.\<close>

definition pubOpts_zero :: pubOpts where
  "pubOpts_zero = \<lparr>pub_ctx = None, pub_ttl = 0, pub_id = [], pub_lid = [], pub_str = [], pub_seq = 0\<rparr>"

text \<open>The loop \<open>for _, opt := range opts\<close>, which returns at the first error.\<close>

fun configurePublish_all :: "PubOpt list \<Rightarrow> pubOpts \<Rightarrow> error + pubOpts" where
  "configurePublish_all [] po = Inr po"
| "configurePublish_all (opt # rest) po =
     (case configurePublish opt po of
        (Some err, _) \<Rightarrow> Inl err
      | (None, po') \<Rightarrow> configurePublish_all rest po')"

text \<open>
  Modelled from the spec: the response envelope \<open>apiResponse\<close> and its \<open>APIError\<close> are
  declared in jsm.go; the spec gives every envelope an optional \<open>error\<close> object with a
  code and a description. \<open>pubAckResponse\<close> embeds it beside a \<open>*PubAck\<close>.
\<close>

record APIError =
  Code :: int
  Description :: string

record PubAck =
  ack_Stream :: string
  ack_Sequence :: u64
  ack_Duplicate :: bool

record pubAckResponse =
  resp_Error :: "APIError option"
  resp_PubAck :: "PubAck option"

text \<open>\<open>strconv.FormatUint(n, 10)\<close>: the decimal digits of \<open>n\<close>, most significant first.\<close>

definition digit_char :: "nat \<Rightarrow> char" where
  "digit_char d = char_of (48 + d)"

function FormatUint10 :: "nat \<Rightarrow> string" where
  "FormatUint10 n =
     (if n < 10 then [digit_char n] else FormatUint10 (n div 10) @ [digit_char (n mod 10)])"
  by pat_completeness auto
termination
  by (relation "measure (\<lambda>n. n)") auto

declare FormatUint10.simps [simp del]

text \<open>
  The four conditional \<open>m.Header.Set\<close> calls of PublishMsg, in the order of the source.
\<close>

definition set_if :: "bool \<Rightarrow> string \<Rightarrow> string \<Rightarrow> header option exec \<Rightarrow> header option exec" where
  "set_if c k v hx =
     (case hx of
        Returns h \<Rightarrow> (if c then Header_Set h k v else Returns h)
      | Panics \<Rightarrow> Panics
      | Blocks \<Rightarrow> Blocks)"

definition publish_headers :: "pubOpts \<Rightarrow> header option \<Rightarrow> header option exec" where
  "publish_headers po h =
     set_if (pub_seq po > 0) ExpectedLastSeqHdr (FormatUint10 (unat (pub_seq po)))
       (set_if (pub_str po \<noteq> []) ExpectedStreamHdr (pub_str po)
         (set_if (pub_lid po \<noteq> []) ExpectedLastMsgIdHdr (pub_lid po)
           (set_if (pub_id po \<noteq> []) MsgIdHdr (pub_id po) (Returns h))))"

text \<open>
  The tail of PublishMsg, from the reply of the request on: \<open>reply\<close> is what
  \<open>RequestMsg\<close> or \<open>RequestMsgWithContext\<close> returned, \<open>unmarshal\<close> is
  \<open>json.Unmarshal\<close> into a \<open>pubAckResponse\<close>.
\<close>

definition publish_reply ::
  "(bytes \<Rightarrow> error + pubAckResponse) \<Rightarrow> error + Msg \<Rightarrow> error + PubAck" where
  "publish_reply unmarshal reply =
     (case reply of
        Inl err \<Rightarrow> Inl (if err = ErrNoResponders then ErrNoStreamResponse else err)
      | Inr resp \<Rightarrow>
          (case unmarshal (Data resp) of
             Inl _ \<Rightarrow> Inl ErrInvalidJSAck
           | Inr pa \<Rightarrow>
               (case resp_Error pa of
                  Some apierr \<Rightarrow> Inl (errors_New (Description apierr))
                | None \<Rightarrow>
                    (case resp_PubAck pa of
                       None \<Rightarrow> Inl ErrInvalidJSAck
                     | Some ack \<Rightarrow>
                         if ack_Stream ack = [] then Inl ErrInvalidJSAck else Inr ack))))"

text \<open>
  \<open>js.PublishMsg(m, opts...)\<close>. The result is the list of calls made on the connection,
  the message as the call left it (it is mutated through the pointer), and the Go result
  pair as a sum.
\<close>

definition PublishMsg ::
  "js \<Rightarrow> (bytes \<Rightarrow> error + pubAckResponse) \<Rightarrow> error + Msg \<Rightarrow> Msg \<Rightarrow> PubOpt list
     \<Rightarrow> (nc_call list \<times> Msg \<times> (error + PubAck)) exec" where
  "PublishMsg j unmarshal reply m opts =
     (let m1 = (if length opts > 0 \<and> Header m = None then m\<lparr>Header := Some Map.empty\<rparr> else m) in
      case configurePublish_all opts pubOpts_zero of
        Inl err \<Rightarrow> Returns ([], m1, Inl err)
      | Inr po \<Rightarrow>
          if pub_ctx po \<noteq> None \<and> pub_ttl po \<noteq> 0 then Returns ([], m1, Inl ErrContextAndTimeout)
          else
            let po1 = (if pub_ttl po = 0 \<and> pub_ctx po = None
                       then po\<lparr>pub_ttl := wait (js_opts j)\<rparr> else po) in
            (case publish_headers po1 (Header m1) of
               Panics \<Rightarrow> Panics
             | Blocks \<Rightarrow> Blocks
             | Returns h \<Rightarrow>
                 let m2 = m1\<lparr>Header := h\<rparr>;
                     call = (if 0 <s pub_ttl po1 then RequestMsg m2 (pub_ttl po1)
                             else RequestMsgWithContext (pub_ctx po1) m2)
                 in Returns ([call], m2, publish_reply unmarshal reply)))"

text \<open>\<open>js.Publish(subj, data, opts...)\<close> wraps a fresh message.\<close>

definition Publish_js ::
  "js \<Rightarrow> (bytes \<Rightarrow> error + pubAckResponse) \<Rightarrow> error + Msg \<Rightarrow> string \<Rightarrow> bytes \<Rightarrow> PubOpt list
     \<Rightarrow> (nc_call list \<times> Msg \<times> (error + PubAck)) exec" where
  "Publish_js j unmarshal reply subj data opts =
     PublishMsg j unmarshal reply
       \<lparr>Subject = subj, Reply = [], Header = None, Data = data, Sub = None, ackd = 0\<rparr> opts"

subsection \<open>Acknowledgements\<close>

text \<open>
  \<open>m.checkReply()\<close>: the JetStream handle of the message's subscription (nil when the
  subscription is not a JetStream one), its pull flag, and the error.
\<close>

definition checkReply :: "Msg option \<Rightarrow> js option \<times> bool \<times> error option" where
  "checkReply mo =
     (case mo of
        None \<Rightarrow> (None, False, Some ErrMsgNotBound)
      | Some m \<Rightarrow>
          (case Sub m of
             None \<Rightarrow> (None, False, Some ErrMsgNotBound)
           | Some sub \<Rightarrow>
               if Reply m = [] then (None, False, Some ErrMsgNoReply)
               else
                 (case jsi sub of
                    None \<Rightarrow> (None, False, None)
                  | Some ji \<Rightarrow> (Some (jsi_js ji), pull ji, None))))"

text \<open>
  \<open>m.ackReply(ackType, sync, opts...)\<close>. \<open>sent\<close> is the error of the one send the call
  makes (\<open>nc.Publish\<close>, \<open>nc.Request\<close> or \<open>nc.RequestWithContext\<close>). The result is the calls
  made, the message with its \<open>ackd\<close> flag as the call left it, and the returned error.
\<close>

definition ackReply ::
  "Msg \<Rightarrow> bytes \<Rightarrow> bool \<Rightarrow> PubOpt list \<Rightarrow> error option \<Rightarrow> nc_call list \<times> Msg \<times> error option" where
  "ackReply m ackType sync opts sent =
     (case configurePublish_all opts pubOpts_zero of
        Inl err \<Rightarrow> ([], m, Some err)
      | Inr po \<Rightarrow>
          (case checkReply (Some m) of
             (_, _, Some err) \<Rightarrow> ([], m, Some err)
           | (jo, _, None) \<Rightarrow>
               if ackd m = 1 then ([], m, Some ErrInvalidJSAck)
               else
                 let wait' = (if 0 <s pub_ttl po then pub_ttl po
                              else case jo of Some j \<Rightarrow> wait (js_opts j) | None \<Rightarrow> defaultRequestWait);
                     call = (if sync
                             then (case pub_ctx po of
                                     Some c \<Rightarrow> RequestWithContext c (Reply m) ackType
                                   | None \<Rightarrow> Request (Reply m) ackType wait')
                             else Publish (Reply m) ackType);
                     m' = (if sent = None \<and> ackType \<noteq> AckProgress then m\<lparr>ackd := 1\<rparr> else m)
                 in ([call], m', sent)))"

definition Ack :: "Msg \<Rightarrow> error option \<Rightarrow> nc_call list \<times> Msg \<times> error option" where
  "Ack m sent = ackReply m AckAck False [] sent"

definition AckSync :: "Msg \<Rightarrow> PubOpt list \<Rightarrow> error option \<Rightarrow> nc_call list \<times> Msg \<times> error option" where
  "AckSync m opts sent = ackReply m AckAck True opts sent"

definition Nak :: "Msg \<Rightarrow> error option \<Rightarrow> nc_call list \<times> Msg \<times> error option" where
  "Nak m sent = ackReply m AckNak False [] sent"

definition Term :: "Msg \<Rightarrow> error option \<Rightarrow> nc_call list \<times> Msg \<times> error option" where
  "Term m sent = ackReply m AckTerm False [] sent"

definition InProgress :: "Msg \<Rightarrow> error option \<Rightarrow> nc_call list \<times> Msg \<times> error option" where
  "InProgress m sent = ackReply m AckProgress False [] sent"

text \<open>
  A caller's sequence of acknowledgement calls on one message, each with the error its
  send meets, run one after the other: the errors returned, and the message at the end.
\<close>

datatype ack_call = CallAck | CallAckSync "PubOpt list" | CallNak | CallTerm | CallInProgress

fun ack_step :: "Msg \<Rightarrow> ack_call \<Rightarrow> error option \<Rightarrow> nc_call list \<times> Msg \<times> error option" where
  "ack_step m CallAck sent = Ack m sent"
| "ack_step m (CallAckSync opts) sent = AckSync m opts sent"
| "ack_step m CallNak sent = Nak m sent"
| "ack_step m CallTerm sent = Term m sent"
| "ack_step m CallInProgress sent = InProgress m sent"

fun ack_run :: "Msg \<Rightarrow> (ack_call \<times> error option) list \<Rightarrow> error option list \<times> Msg" where
  "ack_run m [] = ([], m)"
| "ack_run m ((c, sent) # rest) =
     (case ack_step m c sent of
        (_, m', err) \<Rightarrow> (case ack_run m' rest of (errs, m'') \<Rightarrow> (err # errs, m'')))"

fun terminal :: "ack_call \<Rightarrow> bool" where
  "terminal CallInProgress = False"
| "terminal _ = True"

text \<open>The number of terminal calls (Ack, AckSync, Nak, Term) of a run that returned nil.\<close>

fun terminal_successes :: "Msg \<Rightarrow> (ack_call \<times> error option) list \<Rightarrow> nat" where
  "terminal_successes m [] = 0"
| "terminal_successes m ((c, sent) # rest) =
     (case ack_step m c sent of
        (_, m', err) \<Rightarrow>
          (if terminal c \<and> err = None then 1 else 0) + terminal_successes m' rest)"

text \<open>The payload each acknowledgement call sends.\<close>

definition ackType_of :: "ack_call \<Rightarrow> bytes" where
  "ackType_of c =
     (case c of
        CallAck \<Rightarrow> AckAck
      | CallAckSync _ \<Rightarrow> AckAck
      | CallNak \<Rightarrow> AckNak
      | CallTerm \<Rightarrow> AckTerm
      | CallInProgress \<Rightarrow> AckProgress)"

text \<open>
  Overlapping calls. \<open>ackReply\<close> touches the flag twice, with
  \<open>atomic.LoadUint32\<close> before the send and \<open>atomic.StoreUint32\<close> after it, and between
  the two another goroutine may run. A call in progress is at one of four points: before
  the load (with the option loop and \<open>checkReply\<close>), before the send (holding the locals
  \<open>o\<close> and \<open>js\<close>), before the store (holding the error of the send), or returned.
\<close>

datatype ack_pc =
    AtLoad
  | AtSend pubOpts "js option"
  | AtStore "error option"
  | Returned "error option"

record ack_thread =
  t_ackType :: bytes
  t_sync :: bool
  t_opts :: "PubOpt list"
  t_sent :: "error option"
  t_pc :: ack_pc
  t_calls :: "nc_call list"

text \<open>A call \<open>m.ackReply(ackType, sync, opts...)\<close> about to start; \<open>sent\<close> is the
  error its send will meet.\<close>

definition start_ack :: "bytes \<Rightarrow> bool \<Rightarrow> PubOpt list \<Rightarrow> error option \<Rightarrow> ack_thread" where
  "start_ack ackType sync opts sent =
     \<lparr>t_ackType = ackType, t_sync = sync, t_opts = opts, t_sent = sent,
      t_pc = AtLoad, t_calls = []\<rparr>"

text \<open>One step of one call, on the shared message: up to the load, the send, or the store.\<close>

definition thread_step :: "Msg \<Rightarrow> ack_thread \<Rightarrow> Msg \<times> ack_thread" where
  "thread_step m t =
     (case t_pc t of
        AtLoad \<Rightarrow>
          (case configurePublish_all (t_opts t) pubOpts_zero of
             Inl err \<Rightarrow> (m, t\<lparr>t_pc := Returned (Some err)\<rparr>)
           | Inr po \<Rightarrow>
               (case checkReply (Some m) of
                  (_, _, Some err) \<Rightarrow> (m, t\<lparr>t_pc := Returned (Some err)\<rparr>)
                | (jo, _, None) \<Rightarrow>
                    if ackd m = 1 then (m, t\<lparr>t_pc := Returned (Some ErrInvalidJSAck)\<rparr>)
                    else (m, t\<lparr>t_pc := AtSend po jo\<rparr>)))
      | AtSend po jo \<Rightarrow>
          let wait' = (if 0 <s pub_ttl po then pub_ttl po
                       else case jo of Some j \<Rightarrow> wait (js_opts j) | None \<Rightarrow> defaultRequestWait);
              call = (if t_sync t
                      then (case pub_ctx po of
                              Some c \<Rightarrow> RequestWithContext c (Reply m) (t_ackType t)
                            | None \<Rightarrow> Request (Reply m) (t_ackType t) wait')
                      else Publish (Reply m) (t_ackType t))
          in (m, t\<lparr>t_calls := t_calls t @ [call], t_pc := AtStore (t_sent t)\<rparr>)
      | AtStore err \<Rightarrow>
          ((if err = None \<and> t_ackType t \<noteq> AckProgress then m\<lparr>ackd := 1\<rparr> else m),
           t\<lparr>t_pc := Returned err\<rparr>)
      | Returned err \<Rightarrow> (m, t))"

text \<open>
  A schedule names, step by step, the call that moves next; a name outside the list of
  calls moves nothing.
\<close>

fun run_schedule :: "Msg \<Rightarrow> ack_thread list \<Rightarrow> nat list \<Rightarrow> Msg \<times> ack_thread list" where
  "run_schedule m ts [] = (m, ts)"
| "run_schedule m ts (i # sched) =
     (if i < length ts
      then (case thread_step m (ts ! i) of (m', t') \<Rightarrow> run_schedule m' (ts[i := t']) sched)
      else run_schedule m ts sched)"

subsection \<open>Message metadata\<close>

record MsgMetaData =
  Consumer :: u64
  Stream :: u64
  Delivered :: u64
  Pending :: u64
  Timestamp :: "64 word"
  StreamName :: string

text \<open>
  \<open>parseNum(d)\<close> returns an \<open>int64\<close>, here a 64-bit word read as signed; the
  arithmetic wraps as Go's does. The source ranges over the runes of \<open>d\<close>: a byte outside
  ASCII starts a rune above 57 (or an invalid encoding, read as U+FFFD), so the scan
  returns -1 at that byte, as the scan over bytes does.
\<close>

definition asciiZero :: nat where "asciiZero = 48"
definition asciiNine :: nat where "asciiNine = 57"

fun parseNum_loop :: "string \<Rightarrow> 64 word \<Rightarrow> 64 word" where
  "parseNum_loop [] n = n"
| "parseNum_loop (dec # d) n =
     (if of_char dec < asciiZero \<or> of_char dec > asciiNine then - 1
      else parseNum_loop d (n * 10 + (of_nat (of_char dec) - of_nat asciiZero)))"

definition parseNum :: "string \<Rightarrow> 64 word" where
  "parseNum d = (if length d = 0 then - 1 else parseNum_loop d 0)"

text \<open>
  The tokenizer loop of MetaData: \<open>i\<close> runs over the bytes of the subject, \<open>start\<close> is
  where the current token began, \<open>tokens\<close> the tokens closed so far.
\<close>

function split_loop :: "string \<Rightarrow> nat \<Rightarrow> nat \<Rightarrow> string list \<Rightarrow> nat \<times> string list" where
  "split_loop subject i start tokens =
     (if i < length subject
      then (if subject ! i = CHR ''.''
            then split_loop subject (i + 1) (i + 1) (tokens @ [take (i - start) (drop start subject)])
            else split_loop subject (i + 1) start tokens)
      else (start, tokens))"
  by pat_completeness auto
termination
  by (relation "measure (\<lambda>(subject, i, start, tokens). length subject - i)") auto

declare split_loop.simps [simp del]

definition subject_tokens :: "string \<Rightarrow> string list" where
  "subject_tokens subject =
     (case split_loop subject 0 0 [] of (start, tokens) \<Rightarrow> tokens @ [drop start subject])"

text \<open>
  \<open>m.MetaData()\<close>. The unsigned fields hold \<open>uint64(parseNum(...))\<close>, the same 64 bits;
  \<open>Timestamp\<close> holds the nanoseconds handed to \<open>time.Unix(0, ...)\<close>.
\<close>

definition expectedTokens :: nat where "expectedTokens = 9"

definition MetaData :: "Msg \<Rightarrow> error + MsgMetaData" where
  "MetaData m =
     (case checkReply (Some m) of
        (_, _, Some err) \<Rightarrow> Inl err
      | (_, _, None) \<Rightarrow>
          let tokens = subject_tokens (Reply m) in
          if length tokens \<noteq> expectedTokens then Inl ErrNotJSMessage
          else if tokens ! 0 \<noteq> ''$JS'' then Inl ErrNotJSMessage
          else if tokens ! 1 \<noteq> ''ACK'' then Inl ErrNotJSMessage
          else Inr \<lparr>Consumer = parseNum (tokens ! 6),
                    Stream = parseNum (tokens ! 5),
                    Delivered = parseNum (tokens ! 4),
                    Pending = parseNum (tokens ! 8),
                    Timestamp = parseNum (tokens ! 7),
                    StreamName = tokens ! 2\<rparr>)"

text \<open>A byte that is not an ASCII digit.\<close>

definition non_digit :: "char \<Rightarrow> bool" where
  "non_digit c = (of_char c < asciiZero \<or> of_char c > asciiNine)"

text \<open>
  A reference tokenizer, for comparison with the loop of MetaData: \<open>split_dots\<close> cuts a
  string at every dot, \<open>join_dots\<close> writes tokens with dots between them.
\<close>

fun split_dots :: "string \<Rightarrow> string list" where
  "split_dots [] = [[]]"
| "split_dots (c # cs) =
     (if c = CHR ''.'' then [] # split_dots cs
      else (case split_dots cs of t # ts \<Rightarrow> (c # t) # ts | [] \<Rightarrow> [[c]]))"

fun join_dots :: "string list \<Rightarrow> string" where
  "join_dots [] = []"
| "join_dots [t] = t"
| "join_dots (t # ts) = t @ ''.'' @ join_dots ts"

text \<open>The number a string of decimal digits writes, after the digits of \<open>k\<close>.\<close>

fun dec_value :: "nat \<Rightarrow> string \<Rightarrow> nat" where
  "dec_value k [] = k"
| "dec_value k (c # cs) = dec_value (k * 10 + (of_char c - asciiZero)) cs"

text \<open>Writing \<open>p\<close> in front of the first token of a list.\<close>

fun prepend :: "string \<Rightarrow> string list \<Rightarrow> string list" where
  "prepend p [] = [p]"
| "prepend p (t # ts) = (p @ t) # ts"

subsection \<open>Pull fetch\<close>

record pullOpts =
  pull_ttl :: duration
  pull_ctx :: "ctx option"

text \<open>
  The values that implement \<open>PullOpt\<close>: MaxWait, and ContextOpt (written \<open>PullContext\<close>
  here, as a constructor cannot belong to two datatypes).
\<close>

datatype PullOpt = MaxWait duration | PullContext ctx

fun configurePull :: "PullOpt \<Rightarrow> pullOpts \<Rightarrow> error option \<times> pullOpts" where
  "configurePull (MaxWait t) po = (None, po\<lparr>pull_ttl := t\<rparr>)"
| "configurePull (PullContext c) po = (None, po\<lparr>pull_ctx := Some c\<rparr>)"

definition pullOpts_zero :: pullOpts where
  "pullOpts_zero = \<lparr>pull_ttl = 0, pull_ctx = None\<rparr>"

fun configurePull_all :: "PullOpt list \<Rightarrow> pullOpts \<Rightarrow> error + pullOpts" where
  "configurePull_all [] po = Inr po"
| "configurePull_all (opt # rest) po =
     (case configurePull opt po of
        (Some err, _) \<Rightarrow> Inl err
      | (None, po') \<Rightarrow> configurePull_all rest po')"

record nextRequest =
  Expires :: duration
  Batch :: int
  NoWait :: bool

text \<open>
  Modelled from the spec: the header names and status values are constants of nats.go,
  outside js.go. The spec names the \<open>Status\<close> header, a description header, the 404
  no-messages status and the transport's no-responders status; the Go switch in
  \<open>checkMsg\<close> compiles only if the two status constants differ from each other and from
  400, 408 and 409.
\<close>

definition statusHdr :: string where "statusHdr = ''Status''"
definition descrHdr :: string where "descrHdr = ''Description''"
definition noResponders :: string where "noResponders = ''503''"
definition noMessages :: string where "noMessages = ''404''"

text \<open>The closure \<open>checkMsg\<close> of Fetch.\<close>

definition checkMsg :: "Msg \<Rightarrow> error option" where
  "checkMsg msg =
     (if length (Data msg) = 0
      then (let st = Header_Get (Header msg) statusHdr in
            if st = noResponders then Some ErrNoResponders
            else if st = noMessages then Some errNoMessages
            else if st = ''400'' \<or> st = ''408'' \<or> st = ''409''
            then Some (errors_New (Header_Get (Header msg) descrHdr))
            else None)
      else None)"

text \<open>The closure \<open>checkCtxErr\<close> of Fetch; it captures \<open>o.ctx\<close>.\<close>

definition checkCtxErr :: "pullOpts \<Rightarrow> error option \<Rightarrow> error option" where
  "checkCtxErr po err =
     (if pull_ctx po = None \<and> err = Some context_DeadlineExceeded then Some ErrTimeout else err)"

definition apiSubj :: "js \<Rightarrow> string \<Rightarrow> string" where
  "apiSubj j subj = (if pre (js_opts j) = [] then subj else pre (js_opts j) @ subj)"

text \<open>\<open>fmt.Sprintf(apiRequestNextT, stream, consumer)\<close>.\<close>

definition apiRequestNext :: "string \<Rightarrow> string \<Rightarrow> string" where
  "apiRequestNext strm cons = ''CONSUMER.MSG.NEXT.'' @ strm @ ''.'' @ cons"

text \<open>
  What a \<open>select\<close> over the inbox channel and \<open>ctx.Done()\<close> meets: a delivered message
  with the error \<open>s.processNextMsgDelivered\<close> answers for it, the channel closed with the
  error \<open>s.getNextMsgErr()\<close> answers, or the context done with its \<open>ctx.Err()\<close>.
\<close>

datatype chan_event = Recv Msg "error option" | Closed "error option" | Done error

text \<open>
  Everything the connection answers during one Fetch: \<open>marshal\<close> is \<open>json.Marshal\<close> of
  the next-request, \<open>ctx_done\<close> the state of the context at the first check, \<open>reply1\<close>
  and \<open>reply2\<close> the results of the two requests of the single-message path, \<open>inbox\<close>
  the result of \<open>NewInbox()\<close>, then the errors of \<open>nc.subscribe\<close>, of the two
  \<open>nc.publish\<close> calls and of \<open>s.AutoUnsubscribe\<close>, and the events the selects meet, in
  order. A select that finds no event left blocks forever.
\<close>

record fetch_env =
  marshal :: "nextRequest \<Rightarrow> bytes"
  ctx_done :: "error option"
  reply1 :: "error + Msg"
  reply2 :: "error + Msg"
  inbox :: string
  subscribe_err :: "error option"
  publish_err1 :: "error option"
  publish_err2 :: "error option"
  autounsub_err :: "error option"
  events :: "chan_event list"

text \<open>Go's result pair \<open>([]*Msg, error)\<close>, with the calls made on the connection.\<close>

type_synonym fetch_result = "nc_call list \<times> Msg option list option \<times> error option"

text \<open>The single-message path, \<open>batch == 1\<close>.\<close>

definition fetch_one ::
  "fetch_env \<Rightarrow> pullOpts \<Rightarrow> ctx \<Rightarrow> string \<Rightarrow> nextRequest \<Rightarrow> duration \<Rightarrow> fetch_result exec" where
  "fetch_one env po c reqNext nr expires =
     (let call1 = RequestWithContext c reqNext (marshal env nr) in
      case reply1 env of
        Inl err \<Rightarrow> Returns ([call1], None, checkCtxErr po (Some err))
      | Inr resp \<Rightarrow>
          (case checkMsg resp of
             None \<Rightarrow> Returns ([call1], Some [Some resp], None)
           | Some err \<Rightarrow>
               if err = errNoMessages
               then
                 (let nr' = nr\<lparr>NoWait := False, Expires := expires\<rparr>;
                      call2 = oldRequestWithContext c reqNext (marshal env nr') in
                  case reply2 env of
                    Inl err2 \<Rightarrow> Returns ([call1, call2], None, checkCtxErr po (Some err2))
                  | Inr resp2 \<Rightarrow>
                      (case checkMsg resp2 of
                         Some err2 \<Rightarrow> Returns ([call1, call2], None, Some err2)
                       | None \<Rightarrow> Returns ([call1, call2], Some [Some resp2], None)))
               else Returns ([call1], None, checkCtxErr po (Some err))))"

text \<open>
  One \<open>select\<close> that waits for the first message: the new values of \<open>firstMsg\<close> and
  \<open>err\<close>. A closed channel yields a nil message.
\<close>

fun await_first :: "pullOpts \<Rightarrow> Msg option \<Rightarrow> chan_event \<Rightarrow> Msg option \<times> error option" where
  "await_first po firstMsg (Recv msg perr) =
     (Some msg, (case perr of Some e \<Rightarrow> Some e | None \<Rightarrow> checkMsg msg))"
| "await_first po firstMsg (Closed gerr) = (None, gerr)"
| "await_first po firstMsg (Done e) = (firstMsg, checkCtxErr po (Some e))"

text \<open>
  The collection loop \<open>for { select ... }\<close>: \<open>err\<close> and \<open>msgs\<close> are the variables of
  Fetch the loop reads and writes. The result is Go's pair \<open>(msgs, error)\<close>.
\<close>

fun collect ::
  "pullOpts \<Rightarrow> int \<Rightarrow> error option \<Rightarrow> Msg option list \<Rightarrow> chan_event list
     \<Rightarrow> (Msg option list option \<times> error option) exec" where
  "collect po batch err msgs [] = Blocks"
| "collect po batch err msgs (Done e # evs) = Returns (Some msgs, checkCtxErr po err)"
| "collect po batch err msgs (Recv msg perr # evs) =
     (let err' = (case perr of Some e \<Rightarrow> Some e | None \<Rightarrow> checkMsg msg) in
      if err' \<noteq> None then Returns (Some msgs, None)
      else
        let msgs' = msgs @ [Some msg] in
        if int (length msgs') = batch then Returns (Some msgs', None)
        else collect po batch err' msgs' evs)"
| "collect po batch err msgs (Closed gerr # evs) =
     (if gerr \<noteq> None then Returns (Some msgs, None)
      else if int (length msgs) = batch then Returns (Some msgs, None)
      else collect po batch gerr msgs evs)"

text \<open>
  The result of the loop with the calls made before it and the deferred calls that run
  at the return.
\<close>

definition with_calls ::
  "nc_call list \<Rightarrow> nc_call list \<Rightarrow> (Msg option list option \<times> error option) exec \<Rightarrow> fetch_result exec" where
  "with_calls made deferred r =
     (case r of
        Returns (ms, err) \<Rightarrow> Returns (made @ deferred, ms, err)
      | Panics \<Rightarrow> Panics
      | Blocks \<Rightarrow> Blocks)"

text \<open>
  The multi-message path. After \<open>defer s.Unsubscribe()\<close> every return runs one more
  \<open>Unsubscribe\<close>, after the explicit one some branches make. \<open>make(chan *Msg, batch)\<close>
  panics on a negative size.
\<close>

definition fetch_batch ::
  "fetch_env \<Rightarrow> pullOpts \<Rightarrow> string \<Rightarrow> nextRequest \<Rightarrow> duration \<Rightarrow> int \<Rightarrow> fetch_result exec" where
  "fetch_batch env po reqNext nr expires batch =
     (if batch < 0 then Panics
      else
        let c1 = [subscribe (inbox env)] in
        case subscribe_err env of
          Some err \<Rightarrow> Returns (c1, None, Some err)
        | None \<Rightarrow>
            let c2 = c1 @ [publish reqNext (inbox env) (marshal env nr)] in
            (case publish_err1 env of
               Some err \<Rightarrow> Returns (c2 @ [Unsubscribe, Unsubscribe], None, Some err)
             | None \<Rightarrow>
                 (case events env of
                    [] \<Rightarrow> Blocks
                  | ev1 # evs1 \<Rightarrow>
                      (case await_first po None ev1 of
                         (firstMsg, err) \<Rightarrow>
                           if err = Some errNoMessages
                           then
                             (let nr' = nr\<lparr>NoWait := False, Expires := expires\<rparr>;
                                  c3 = c2 @ [AutoUnsubscribe (batch + 1)] in
                              case autounsub_err env of
                                Some err \<Rightarrow> Returns (c3 @ [Unsubscribe], None, Some err)
                              | None \<Rightarrow>
                                  let c4 = c3 @ [publish reqNext (inbox env) (marshal env nr')] in
                                  (case publish_err2 env of
                                     Some err \<Rightarrow> Returns (c4 @ [Unsubscribe, Unsubscribe], None, Some err)
                                   | None \<Rightarrow>
                                       (case evs1 of
                                          [] \<Rightarrow> Blocks
                                        | ev2 # evs2 \<Rightarrow>
                                            (case await_first po firstMsg ev2 of
                                               (firstMsg2, err2) \<Rightarrow>
                                                 if err2 \<noteq> None
                                                 then Returns (c4 @ [Unsubscribe, Unsubscribe], None, err2)
                                                 else
                                                   (case firstMsg2 of
                                                      None \<Rightarrow> Panics
                                                    | Some fm \<Rightarrow>
                                                        (case checkMsg fm of
                                                           Some err3 \<Rightarrow>
                                                             Returns (c4 @ [Unsubscribe, Unsubscribe], None, Some err3)
                                                         | None \<Rightarrow>
                                                             with_calls c4 [Unsubscribe]
                                                               (collect po batch None [firstMsg2] evs2)))))))
                           else if err \<noteq> None
                           then Returns (c2 @ [Unsubscribe, Unsubscribe], None, err)
                           else
                             (let c3 = c2 @ [AutoUnsubscribe batch] in
                              case autounsub_err env of
                                Some err \<Rightarrow> Returns (c3 @ [Unsubscribe], None, Some err)
                              | None \<Rightarrow>
                                  with_calls c3 [Unsubscribe]
                                    (collect po batch None [firstMsg] evs1))))))"

text \<open>
  The deadline Fetch works with: the timeout \<open>ttl\<close> and the context \<open>ctx\<close>, from the
  options and the JetStream handle's default wait.
\<close>

definition fetch_ttl :: "js \<Rightarrow> pullOpts \<Rightarrow> duration" where
  "fetch_ttl j po = (if pull_ttl po = 0 then wait (js_opts j) else pull_ttl po)"

definition fetch_ctx :: "js \<Rightarrow> pullOpts \<Rightarrow> ctx" where
  "fetch_ctx j po = (case pull_ctx po of Some c \<Rightarrow> c | None \<Rightarrow> WithTimeout (fetch_ttl j po))"

text \<open>\<open>sub.Fetch(batch, opts...)\<close>; the receiver may be nil.\<close>

definition Fetch :: "Subscription option \<Rightarrow> fetch_env \<Rightarrow> int \<Rightarrow> PullOpt list \<Rightarrow> fetch_result exec" where
  "Fetch so env batch opts =
     (case so of
        None \<Rightarrow> Returns ([], None, Some ErrBadSubscription)
      | Some sub \<Rightarrow>
          (case configurePull_all opts pullOpts_zero of
             Inl err \<Rightarrow> Returns ([], None, Some err)
           | Inr po \<Rightarrow>
               if pull_ctx po \<noteq> None \<and> pull_ttl po \<noteq> 0
               then Returns ([], None, Some ErrContextAndTimeout)
               else
                 (case jsi sub of
                    None \<Rightarrow> Returns ([], None, Some ErrTypeSubscription)
                  | Some ji \<Rightarrow>
                      if sub_typ sub \<noteq> PullSubscription
                      then Returns ([], None, Some ErrTypeSubscription)
                      else
                        let j = jsi_js ji;
                            ttl = fetch_ttl j po;
                            c = fetch_ctx j po
                        in
                        (case ctx_done env of
                           Some e \<Rightarrow>
                             Returns ([], None, Some (if e = context_Canceled then e else ErrTimeout))
                         | None \<Rightarrow>
                             let nr = \<lparr>Expires = 0, Batch = batch, NoWait = True\<rparr>;
                                 reqNext = apiSubj j (apiRequestNext (stream ji) (consumer ji));
                                 expires = ttl - 10 * Millisecond
                             in
                             if batch = 1 then fetch_one env po c reqNext nr expires
                             else fetch_batch env po reqNext nr expires batch))))"

subsection \<open>Sample values\<close>

text \<open>
  A JetStream handle with the defaults of \<open>nc.JetStream()\<close>, a durable push
  subscription, and a message delivered through it.
\<close>

definition js0 :: js where
  "js0 = \<lparr>js_opts = \<lparr>js_ctx = None, pre = ''$JS.API.'', wait = 5000000000, direct = False\<rparr>\<rparr>"

definition sub0 :: Subscription where
  "sub0 = \<lparr>sub_Subject = ''ORDERS.new'', sub_typ = SyncSubscription,
     jsi = Some \<lparr>jsi_js = js0, consumer = ''work'', stream = ''ORDERS'', deliver = ''_INBOX.1'',
       pull = False, durable = True, attached = False\<rparr>\<rparr>"

definition msg0 :: Msg where
  "msg0 = \<lparr>Subject = ''ORDERS.new'', Reply = ''$JS.ACK.ORDERS.work.1.2.3.1600000000000000000.4'',
     Header = None, Data = ''x'', Sub = Some sub0, ackd = 0\<rparr>"

text \<open>A publish-ack reply of the server and a decoder that reads it.\<close>

definition ack0 :: PubAck where
  "ack0 = \<lparr>ack_Stream = ''FOO'', ack_Sequence = 1, ack_Duplicate = False\<rparr>"

definition reply0 :: Msg where
  "reply0 = \<lparr>Subject = ''_INBOX.2'', Reply = [], Header = None, Data = ''ack'', Sub = None, ackd = 0\<rparr>"

definition unmarshal0 :: "bytes \<Rightarrow> error + pubAckResponse" where
  "unmarshal0 data =
     (if data = ''ack'' then Inr \<lparr>resp_Error = None, resp_PubAck = Some ack0\<rparr>
      else if data = ''err''
      then Inr \<lparr>resp_Error = Some \<lparr>Code = 400, Description = ''wrong last sequence''\<rparr>, resp_PubAck = None\<rparr>
      else if data = ''{}'' then Inr \<lparr>resp_Error = None, resp_PubAck = None\<rparr>
      else Inl (TransportError 0))"

definition pub0 :: Msg where
  "pub0 = \<lparr>Subject = ''FOO.bar'', Reply = [], Header = None, Data = ''x'', Sub = None, ackd = 0\<rparr>"

text \<open>
  A pull subscription, data and status messages, and a server that answers a pull with
  three data messages followed by a 408 status.
\<close>

definition pullsub0 :: Subscription where
  "pullsub0 = \<lparr>sub_Subject = ''ORDERS.new'', sub_typ = PullSubscription,
     jsi = Some \<lparr>jsi_js = js0, consumer = ''work'', stream = ''ORDERS'', deliver = [],
       pull = True, durable = True, attached = False\<rparr>\<rparr>"

definition data_msg :: "bytes \<Rightarrow> Msg" where
  "data_msg payload = \<lparr>Subject = ''ORDERS.new'', Reply = ''$JS.ACK.ORDERS.work.1.2.3.4.5'',
     Header = None, Data = payload, Sub = Some pullsub0, ackd = 0\<rparr>"

definition status_msg :: "string \<Rightarrow> string \<Rightarrow> Msg" where
  "status_msg code descr = \<lparr>Subject = ''_INBOX.3'', Reply = [],
     Header = Some [statusHdr \<mapsto> [code], descrHdr \<mapsto> [descr]], Data = [],
     Sub = Some pullsub0, ackd = 0\<rparr>"

definition env0 :: fetch_env where
  "env0 = \<lparr>marshal = (\<lambda>nr. if NoWait nr then ''nowait'' else ''expires''),
     ctx_done = None,
     reply1 = Inr (status_msg ''408'' ''Request Timeout''),
     reply2 = Inr (data_msg ''b''),
     inbox = ''_INBOX.3'',
     subscribe_err = None, publish_err1 = None, publish_err2 = None, autounsub_err = None,
     events = [Recv (data_msg ''a'') None, Recv (data_msg ''b'') None, Recv (data_msg ''c'') None,
               Recv (status_msg ''408'' ''Request Timeout'') None]\<rparr>"

section \<open>Properties\<close>

subsection \<open>Enumerations\<close>

lemmas enum_defs =
  AckNonePolicy_def AckAllPolicy_def AckExplicitPolicy_def
  ReplayInstantPolicy_def ReplayOriginalPolicy_def
  DeliverAllPolicy_def DeliverLastPolicy_def DeliverNewPolicy_def
  DeliverByStartSequencePolicy_def DeliverByStartTimePolicy_def
  LimitsPolicy_def InterestPolicy_def WorkQueuePolicy_def
  DiscardOld_def DiscardNew_def FileStorage_def MemoryStorage_def
  limitsPolicyString_def interestPolicyString_def workQueuePolicyString_def
  memoryStorageString_def fileStorageString_def

lemma strings_ToLower_jsonString_old: "strings_ToLower (jsonString ''old'') = jsonString ''old''"
  by (simp add: strings_ToLower_def jsonString_def toLower_char_def)

lemma strings_ToLower_jsonString_new: "strings_ToLower (jsonString ''new'') = jsonString ''new''"
  by (simp add: strings_ToLower_def jsonString_def toLower_char_def)

lemma AckPolicy_roundtrip:
  "roundtrip AckPolicy_MarshalJSON AckPolicy_UnmarshalJSON q AckNonePolicy = Inr AckNonePolicy"
  "roundtrip AckPolicy_MarshalJSON AckPolicy_UnmarshalJSON q AckAllPolicy = Inr AckAllPolicy"
  "roundtrip AckPolicy_MarshalJSON AckPolicy_UnmarshalJSON q AckExplicitPolicy = Inr AckExplicitPolicy"
  by (simp_all add: roundtrip_def AckPolicy_MarshalJSON_def AckPolicy_UnmarshalJSON_def
      json_Marshal_string_def jsonString_def enum_defs)

lemma ReplayPolicy_roundtrip:
  "roundtrip ReplayPolicy_MarshalJSON ReplayPolicy_UnmarshalJSON q ReplayInstantPolicy = Inr ReplayInstantPolicy"
  "roundtrip ReplayPolicy_MarshalJSON ReplayPolicy_UnmarshalJSON q ReplayOriginalPolicy = Inr ReplayOriginalPolicy"
  by (simp_all add: roundtrip_def ReplayPolicy_MarshalJSON_def ReplayPolicy_UnmarshalJSON_def
      json_Marshal_string_def jsonString_def enum_defs)

lemma DeliverPolicy_roundtrip:
  "roundtrip DeliverPolicy_MarshalJSON DeliverPolicy_UnmarshalJSON q DeliverAllPolicy = Inr DeliverAllPolicy"
  "roundtrip DeliverPolicy_MarshalJSON DeliverPolicy_UnmarshalJSON q DeliverLastPolicy = Inr DeliverLastPolicy"
  "roundtrip DeliverPolicy_MarshalJSON DeliverPolicy_UnmarshalJSON q DeliverNewPolicy = Inr DeliverNewPolicy"
  "roundtrip DeliverPolicy_MarshalJSON DeliverPolicy_UnmarshalJSON q DeliverByStartSequencePolicy
     = Inr DeliverByStartSequencePolicy"
  "roundtrip DeliverPolicy_MarshalJSON DeliverPolicy_UnmarshalJSON q DeliverByStartTimePolicy
     = Inr DeliverByStartTimePolicy"
  by (simp_all add: roundtrip_def DeliverPolicy_MarshalJSON_def DeliverPolicy_UnmarshalJSON_def
      json_Marshal_string_def jsonString_def enum_defs)

lemma RetentionPolicy_roundtrip:
  "roundtrip RetentionPolicy_MarshalJSON RetentionPolicy_UnmarshalJSON q LimitsPolicy = Inr LimitsPolicy"
  "roundtrip RetentionPolicy_MarshalJSON RetentionPolicy_UnmarshalJSON q InterestPolicy = Inr InterestPolicy"
  "roundtrip RetentionPolicy_MarshalJSON RetentionPolicy_UnmarshalJSON q WorkQueuePolicy = Inr WorkQueuePolicy"
  by (simp_all add: roundtrip_def RetentionPolicy_MarshalJSON_def RetentionPolicy_UnmarshalJSON_def
      json_Marshal_string_def jsonString_def enum_defs)

lemma DiscardPolicy_roundtrip:
  "roundtrip DiscardPolicy_MarshalJSON DiscardPolicy_UnmarshalJSON q DiscardOld = Inr DiscardOld"
  "roundtrip DiscardPolicy_MarshalJSON DiscardPolicy_UnmarshalJSON q DiscardNew = Inr DiscardNew"
  using strings_ToLower_jsonString_old strings_ToLower_jsonString_new
  by (simp_all add: roundtrip_def DiscardPolicy_MarshalJSON_def DiscardPolicy_UnmarshalJSON_def
      json_Marshal_string_def jsonString_def enum_defs)

lemma StorageType_roundtrip:
  "roundtrip StorageType_MarshalJSON StorageType_UnmarshalJSON q FileStorage = Inr FileStorage"
  "roundtrip StorageType_MarshalJSON StorageType_UnmarshalJSON q MemoryStorage = Inr MemoryStorage"
  by (simp_all add: roundtrip_def StorageType_MarshalJSON_def StorageType_UnmarshalJSON_def
      json_Marshal_string_def jsonString_def enum_defs)

text \<open>
  C8: for every declared value of AckPolicy, DeliverPolicy, ReplayPolicy, RetentionPolicy,
  DiscardPolicy and StorageType, MarshalJSON succeeds and UnmarshalJSON of the bytes it
  produced succeeds and stores the original value, whatever value \<open>q\<close> the target
  variable held before.
\<close>

theorem enum_json_roundtrip:
  "list_all (\<lambda>p. roundtrip AckPolicy_MarshalJSON AckPolicy_UnmarshalJSON q p = Inr p)
     [AckNonePolicy, AckAllPolicy, AckExplicitPolicy]
   \<and> list_all (\<lambda>p. roundtrip DeliverPolicy_MarshalJSON DeliverPolicy_UnmarshalJSON q p = Inr p)
     [DeliverAllPolicy, DeliverLastPolicy, DeliverNewPolicy,
      DeliverByStartSequencePolicy, DeliverByStartTimePolicy]
   \<and> list_all (\<lambda>p. roundtrip ReplayPolicy_MarshalJSON ReplayPolicy_UnmarshalJSON q p = Inr p)
     [ReplayInstantPolicy, ReplayOriginalPolicy]
   \<and> list_all (\<lambda>p. roundtrip RetentionPolicy_MarshalJSON RetentionPolicy_UnmarshalJSON q p = Inr p)
     [LimitsPolicy, InterestPolicy, WorkQueuePolicy]
   \<and> list_all (\<lambda>p. roundtrip DiscardPolicy_MarshalJSON DiscardPolicy_UnmarshalJSON q p = Inr p)
     [DiscardOld, DiscardNew]
   \<and> list_all (\<lambda>p. roundtrip StorageType_MarshalJSON StorageType_UnmarshalJSON q p = Inr p)
     [FileStorage, MemoryStorage]"
  by (simp add: AckPolicy_roundtrip ReplayPolicy_roundtrip DeliverPolicy_roundtrip
      RetentionPolicy_roundtrip DiscardPolicy_roundtrip StorageType_roundtrip)

lemma toLower_char_simps:
  "toLower_char CHR ''O'' = CHR ''o''"
  "toLower_char CHR ''L'' = CHR ''l''"
  "toLower_char CHR ''D'' = CHR ''d''"
  "toLower_char (CHR 0x22) = CHR 0x22"
  by code_simp+

lemma AckPolicy_MarshalJSON_not_set:
  "AckPolicy_MarshalJSON ackPolicyNotSet
     = Inl (fmt_Errorf ''unknown acknowlegement policy %v'' (ArgInt 99))"
  by (simp add: AckPolicy_MarshalJSON_def ackPolicyNotSet_def enum_defs)

text \<open>
  C9, as stated, fails: DiscardPolicy.UnmarshalJSON lower-cases its input, so the tag
  \<open>"OLD"\<close>, which is neither \<open>"old"\<close> nor \<open>"new"\<close>, decodes without error; and
  DeliverPolicy.UnmarshalJSON has no default case, so the tag \<open>"bogus"\<close> decodes without
  error and leaves the variable as it was.
\<close>

theorem unknown_enum_tag_accepted:
  "jsonString ''OLD'' \<notin> {jsonString ''old'', jsonString ''new''}
   \<and> DiscardPolicy_UnmarshalJSON DiscardNew (jsonString ''OLD'') = (None, DiscardOld)
   \<and> jsonString ''bogus'' \<notin> {jsonString ''all'', jsonString ''undefined'', jsonString ''last'',
         jsonString ''new'', jsonString ''by_start_sequence'', jsonString ''by_start_time''}
   \<and> DeliverPolicy_UnmarshalJSON DeliverNewPolicy (jsonString ''bogus'') = (None, DeliverNewPolicy)"
  by (simp add: DiscardPolicy_UnmarshalJSON_def DeliverPolicy_UnmarshalJSON_def jsonString_def
      strings_ToLower_def toLower_char_simps)

text \<open>
  C9, amended: the decoders of AckPolicy, ReplayPolicy, RetentionPolicy and StorageType
  return an error exactly when the input is not one of the type's on-wire tags; the
  decoder of DiscardPolicy returns an error exactly when the lower-cased input is neither
  \<open>"old"\<close> nor \<open>"new"\<close>. (Nothing is said of DeliverPolicy.)
\<close>

theorem unknown_enum_tag_rejected:
  "(fst (AckPolicy_UnmarshalJSON p data) = None) =
     (data \<in> {jsonString ''none'', jsonString ''all'', jsonString ''explicit''})
   \<and> (fst (ReplayPolicy_UnmarshalJSON p data) = None) =
     (data \<in> {jsonString ''instant'', jsonString ''original''})
   \<and> (fst (RetentionPolicy_UnmarshalJSON p data) = None) =
     (data \<in> {jsonString ''limits'', jsonString ''interest'', jsonString ''workqueue''})
   \<and> (fst (StorageType_UnmarshalJSON p data) = None) =
     (data \<in> {jsonString ''memory'', jsonString ''file''})
   \<and> (fst (DiscardPolicy_UnmarshalJSON p data) = None) =
     (strings_ToLower data \<in> {jsonString ''old'', jsonString ''new''})"
proof -
  have a: "(fst (AckPolicy_UnmarshalJSON p data) = None) =
     (data \<in> {jsonString ''none'', jsonString ''all'', jsonString ''explicit''})"
    by (simp add: AckPolicy_UnmarshalJSON_def)
  have b: "(fst (ReplayPolicy_UnmarshalJSON p data) = None) =
     (data \<in> {jsonString ''instant'', jsonString ''original''})"
    by (simp add: ReplayPolicy_UnmarshalJSON_def)
  have c: "(fst (RetentionPolicy_UnmarshalJSON p data) = None) =
     (data \<in> {jsonString ''limits'', jsonString ''interest'', jsonString ''workqueue''})"
    by (simp add: RetentionPolicy_UnmarshalJSON_def limitsPolicyString_def
        interestPolicyString_def workQueuePolicyString_def)
  have d: "(fst (StorageType_UnmarshalJSON p data) = None) =
     (data \<in> {jsonString ''memory'', jsonString ''file''})"
    by (simp add: StorageType_UnmarshalJSON_def memoryStorageString_def fileStorageString_def)
  have e: "(fst (DiscardPolicy_UnmarshalJSON p data) = None) =
     (strings_ToLower data \<in> {jsonString ''old'', jsonString ''new''})"
    by (simp add: DiscardPolicy_UnmarshalJSON_def)
  from a b c d e show ?thesis by blast
qed

subsection \<open>Unsubscribe\<close>

text \<open>
  C7, as stated, fails: a non-drain unsubscribe in non-direct mode of a durable
  subscription issues the delete of its consumer.
\<close>

theorem unsubscribe_durable_deletes:
  "durable \<lparr>jsi_js = \<lparr>js_opts = \<lparr>js_ctx = None, pre = ''$JS.API.'', wait = 5000000000, direct = False\<rparr>\<rparr>,
       consumer = ''work'', stream = ''ORDERS'', deliver = ''_INBOX.1'',
       pull = False, durable = True, attached = False\<rparr>
   \<and> unsubscribe
       \<lparr>jsi_js = \<lparr>js_opts = \<lparr>js_ctx = None, pre = ''$JS.API.'', wait = 5000000000, direct = False\<rparr>\<rparr>,
        consumer = ''work'', stream = ''ORDERS'', deliver = ''_INBOX.1'',
        pull = False, durable = True, attached = False\<rparr> False None
     = ([DeleteConsumer ''ORDERS'' ''work''], None)"
  by (simp add: unsubscribe_def)

text \<open>
  C7, amended: unsubscribe issues no delete in direct mode, and none in drain mode for a
  durable or attached subscription; in every other case, the non-drain unsubscribe of a
  durable or attached subscription included, it issues exactly one CONSUMER.DELETE for
  the subscription's stream and consumer and returns that call's error.
\<close>

theorem unsubscribe_delete_issued:
  "unsubscribe ji drainMode del =
     (if direct (js_opts (jsi_js ji)) \<or> (drainMode \<and> (durable ji \<or> attached ji)) then ([], None)
      else ([DeleteConsumer (stream ji) (consumer ji)], del))"
  by (simp add: unsubscribe_def)

subsection \<open>Acknowledgements\<close>

lemma configurePublish_all_total: "\<exists>po'. configurePublish_all opts po = Inr po'"
  by (induction opts arbitrary: po) (auto split: prod.splits option.splits, case_tac a, auto)

lemma ackReply_acked:
  "Sub m = Some s \<Longrightarrow> Reply m \<noteq> [] \<Longrightarrow> ackd m = 1
   \<Longrightarrow> ackReply m ackType sync opts sent = ([], m, Some ErrInvalidJSAck)"
  using configurePublish_all_total [of opts pubOpts_zero]
  by (auto simp: ackReply_def checkReply_def split: option.splits)

lemma ackReply_not_acked:
  "Sub m = Some s \<Longrightarrow> Reply m \<noteq> [] \<Longrightarrow> ackd m \<noteq> 1
   \<Longrightarrow> \<exists>call. ackReply m ackType sync opts sent
        = ([call], (if sent = None \<and> ackType \<noteq> AckProgress then m\<lparr>ackd := 1\<rparr> else m), sent)"
  using configurePublish_all_total [of opts pubOpts_zero]
  by (auto simp: ackReply_def checkReply_def Let_def split: option.splits)

lemma ack_step_ackReply:
  "\<exists>sync opts. ack_step m c sent = ackReply m (ackType_of c) sync opts sent"
  by (cases c) (auto simp: ackType_of_def Ack_def AckSync_def Nak_def Term_def InProgress_def)

lemma ackType_of_progress: "(ackType_of c = AckProgress) = (\<not> terminal c)"
  by (cases c) (auto simp: ackType_of_def AckAck_def AckNak_def AckTerm_def AckProgress_def)

lemma ack_step_acked:
  assumes "Sub m = Some s" "Reply m \<noteq> []" "ackd m = 1"
  shows "ack_step m c sent = ([], m, Some ErrInvalidJSAck)"
  using ack_step_ackReply [of m c sent] ackReply_acked [OF assms] by auto

lemma ack_step_not_acked:
  assumes "Sub m = Some s" "Reply m \<noteq> []" "ackd m \<noteq> 1"
  shows "\<exists>call. ack_step m c sent
        = ([call], (if sent = None \<and> terminal c then m\<lparr>ackd := 1\<rparr> else m), sent)"
proof -
  obtain sync opts where e: "ack_step m c sent = ackReply m (ackType_of c) sync opts sent"
    using ack_step_ackReply by blast
  from ackReply_not_acked [OF assms, of "ackType_of c" sync opts sent] e
  show ?thesis by (auto simp: ackType_of_progress)
qed

lemma ack_run_acked:
  assumes "Sub m = Some s" "Reply m \<noteq> []" "ackd m = 1"
  shows "ack_run m calls = (replicate (length calls) (Some ErrInvalidJSAck), m)"
  using assms by (induction calls) (auto simp: ack_step_acked)

lemma terminal_successes_acked:
  assumes "Sub m = Some s" "Reply m \<noteq> []" "ackd m = 1"
  shows "terminal_successes m calls = 0"
  using assms by (induction calls) (auto simp: ack_step_acked)

lemma terminal_successes_le:
  "Sub m = Some s \<Longrightarrow> Reply m \<noteq> [] \<Longrightarrow> terminal_successes m calls \<le> 1"
proof (induction calls arbitrary: m)
  case Nil
  then show ?case by simp
next
  case (Cons a calls)
  obtain c sent where a: "a = (c, sent)" by (cases a)
  show ?case
  proof (cases "ackd m = 1")
    case True
    with Cons.prems show ?thesis by (simp add: terminal_successes_acked)
  next
    case False
    from ack_step_not_acked [OF Cons.prems False, of c sent]
    obtain call where st: "ack_step m c sent
        = ([call], (if sent = None \<and> terminal c then m\<lparr>ackd := 1\<rparr> else m), sent)" by blast
    show ?thesis
    proof (cases "sent = None \<and> terminal c")
      case True
      have "terminal_successes (m\<lparr>ackd := 1\<rparr>) calls = 0"
        using Cons.prems by (intro terminal_successes_acked [of _ s]) auto
      with st True a show ?thesis by simp
    next
      case False
      have "terminal_successes m calls \<le> 1" using Cons.IH Cons.prems by blast
      with st False a show ?thesis by auto
    qed
  qed
qed

lemma in_progress_run:
  assumes "Sub m = Some s" "Reply m \<noteq> []" "ackd m \<noteq> 1"
  shows "ack_run m (replicate n (CallInProgress, None)) = (replicate n None, m)"
proof (induction n)
  case 0
  then show ?case by simp
next
  case (Suc n)
  from ack_step_not_acked [OF assms, of CallInProgress None]
  have "\<exists>call. ack_step m CallInProgress None = ([call], m, None)" by simp
  with Suc show ?case by auto
qed

text \<open>
  A run on the sample message: InProgress succeeds before the first successful terminal
  call, a failed Nak leaves the flag clear, Ack then succeeds, and every later call is
  answered with ErrInvalidJSAck.
\<close>

lemma msg0_run:
  "fst (ack_run msg0 [(CallInProgress, None), (CallNak, Some (TransportError 1)), (CallInProgress, None),
      (CallAck, None), (CallNak, None), (CallTerm, None), (CallAckSync [], None), (CallInProgress, None)])
   = [None, Some (TransportError 1), None, None, Some ErrInvalidJSAck, Some ErrInvalidJSAck,
      Some ErrInvalidJSAck, Some ErrInvalidJSAck]"
  by (simp add: msg0_def sub0_def Ack_def AckSync_def Nak_def Term_def InProgress_def ackReply_def
      checkReply_def pubOpts_zero_def AckAck_def AckNak_def AckTerm_def AckProgress_def Let_def)

text \<open>
  Calls that do not overlap. For a message bound to a subscription, with a non-empty
  reply subject, and any sequence of Ack, AckSync, Nak, Term and InProgress calls made on
  it one after the other, whatever error each send meets: at most one terminal call
  returns nil; a terminal call whose send succeeds while the flag is 0 returns nil and
  sets the flag to 1; once the flag is 1 every call returns ErrInvalidJSAck and sends
  nothing; InProgress never changes the flag, and while the flag is 0 any number of
  InProgress calls whose sends succeed all return nil.
\<close>

lemma ack_sequential:
  assumes "Sub m = Some s" and "Reply m \<noteq> []"
  shows "terminal_successes m calls \<le> 1
    \<and> (ackd m = 0 \<longrightarrow> terminal c \<longrightarrow>
         (\<exists>call. ack_step m c None = ([call], m\<lparr>ackd := 1\<rparr>, None)))
    \<and> (ackd m = 1 \<longrightarrow>
         ack_run m calls = (replicate (length calls) (Some ErrInvalidJSAck), m))
    \<and> ackd (fst (snd (ack_step m CallInProgress sent))) = ackd m
    \<and> (ackd m = 0 \<longrightarrow>
         ack_run m (replicate n (CallInProgress, None)) = (replicate n None, m))"
proof -
  have a: "terminal_successes m calls \<le> 1"
    using assms by (rule terminal_successes_le)
  have b: "ackd m = 0 \<longrightarrow> terminal c \<longrightarrow>
         (\<exists>call. ack_step m c None = ([call], m\<lparr>ackd := 1\<rparr>, None))"
    using ack_step_not_acked [OF assms, of c None] by auto
  have c: "ackd m = 1 \<longrightarrow>
         ack_run m calls = (replicate (length calls) (Some ErrInvalidJSAck), m)"
    using ack_run_acked [OF assms] by blast
  have d: "ackd (fst (snd (ack_step m CallInProgress sent))) = ackd m"
  proof (cases "ackd m = 1")
    case True
    then show ?thesis using ack_step_acked [OF assms True, of CallInProgress sent] by simp
  next
    case False
    then show ?thesis using ack_step_not_acked [OF assms False, of CallInProgress sent] by auto
  qed
  have e: "ackd m = 0 \<longrightarrow>
         ack_run m (replicate n (CallInProgress, None)) = (replicate n None, m)"
    using in_progress_run [OF assms] by auto
  from a b c d e show ?thesis by blast
qed

lemma ack_sequential_msg0:
  "Sub msg0 = Some sub0 \<and> Reply msg0 \<noteq> [] \<and> ackd msg0 = 0 \<and> terminal CallNak
   \<and> terminal_successes msg0 [(CallInProgress, None), (CallAck, None), (CallNak, None), (CallTerm, None)] \<le> 1
   \<and> (\<exists>call. ack_step msg0 CallNak None = ([call], msg0\<lparr>ackd := 1\<rparr>, None))
   \<and> ack_run msg0 (replicate 3 (CallInProgress, None)) = (replicate 3 None, msg0)"
  using ack_sequential [of msg0 sub0 "[(CallInProgress, None), (CallAck, None), (CallNak, None), (CallTerm, None)]"
      CallNak None 3]
  by (simp add: msg0_def)

text \<open>
  A call that runs its three steps with no other call in between does what
  \<open>ackReply\<close> does: the same calls on the connection, the same message, the same error.
\<close>

lemma thread_step_Returned: "t_pc t = Returned e \<Longrightarrow> thread_step m t = (m, t)"
  by (simp add: thread_step_def)

lemma run_schedule_alone:
  "run_schedule m [t] [0, 0, 0] =
     (case thread_step m t of (m1, t1) \<Rightarrow>
        case thread_step m1 t1 of (m2, t2) \<Rightarrow>
          case thread_step m2 t2 of (m3, t3) \<Rightarrow> (m3, [t3]))"
  by (simp split: prod.splits)

lemma run_alone_is_ackReply:
  assumes "ackReply m ackType sync opts sent = (calls, m', err)"
  shows "\<exists>t'. run_schedule m [start_ack ackType sync opts sent] [0, 0, 0] = (m', [t'])
          \<and> t_pc t' = Returned err \<and> t_calls t' = calls"
proof -
  define t0 where "t0 = start_ack ackType sync opts sent"
  obtain po where po: "configurePublish_all opts pubOpts_zero = Inr po"
    using configurePublish_all_total by blast
  obtain jo pl ce where cr: "checkReply (Some m) = (jo, pl, ce)"
    by (cases "checkReply (Some m)") auto
  have early: "\<exists>t'. run_schedule m [t0] [0, 0, 0] = (m, [t']) \<and> t_pc t' = Returned e \<and> t_calls t' = []"
    if "thread_step m t0 = (m, t0\<lparr>t_pc := Returned e\<rparr>)" for e
    using that thread_step_Returned [of "t0\<lparr>t_pc := Returned e\<rparr>" e m]
    by (simp add: run_schedule_alone t0_def start_ack_def)
  show ?thesis
  proof (cases ce)
    case (Some e)
    from assms po cr Some have r: "calls = [] \<and> m' = m \<and> err = Some e"
      by (auto simp: ackReply_def)
    have "thread_step m t0 = (m, t0\<lparr>t_pc := Returned (Some e)\<rparr>)"
      using po cr Some by (simp add: thread_step_def t0_def start_ack_def)
    from early [OF this] r show ?thesis by (simp add: t0_def)
  next
    case None
    show ?thesis
    proof (cases "ackd m = 1")
      case True
      from assms po cr None True have r: "calls = [] \<and> m' = m \<and> err = Some ErrInvalidJSAck"
        by (auto simp: ackReply_def)
      have "thread_step m t0 = (m, t0\<lparr>t_pc := Returned (Some ErrInvalidJSAck)\<rparr>)"
        using po cr None True by (simp add: thread_step_def t0_def start_ack_def)
      from early [OF this] r show ?thesis by (simp add: t0_def)
    next
      case False
      let ?wait = "if 0 <s pub_ttl po then pub_ttl po
                   else case jo of Some j \<Rightarrow> wait (js_opts j) | None \<Rightarrow> defaultRequestWait"
      let ?call = "if sync
                   then (case pub_ctx po of
                           Some c \<Rightarrow> RequestWithContext c (Reply m) ackType
                         | None \<Rightarrow> Request (Reply m) ackType ?wait)
                   else Publish (Reply m) ackType"
      let ?m' = "if sent = None \<and> ackType \<noteq> AckProgress then m\<lparr>ackd := 1\<rparr> else m"
      from assms po cr None False have r: "calls = [?call] \<and> m' = ?m' \<and> err = sent"
        by (auto simp: ackReply_def Let_def)
      have s1: "thread_step m t0 = (m, t0\<lparr>t_pc := AtSend po jo\<rparr>)"
        using po cr None False by (simp add: thread_step_def t0_def start_ack_def)
      have s2: "thread_step m (t0\<lparr>t_pc := AtSend po jo\<rparr>)
                = (m, t0\<lparr>t_calls := [?call], t_pc := AtStore sent\<rparr>)"
        by (simp add: thread_step_def t0_def start_ack_def Let_def split: option.splits)
      have s3: "thread_step m (t0\<lparr>t_calls := [?call], t_pc := AtStore sent\<rparr>)
                = (?m', t0\<lparr>t_calls := [?call], t_pc := Returned sent\<rparr>)"
        by (simp add: thread_step_def t0_def start_ack_def)
      have "run_schedule m [t0] [0, 0, 0] = (?m', [t0\<lparr>t_calls := [?call], t_pc := Returned sent\<rparr>])"
        by (simp only: run_schedule_alone s1 s2 s3 prod.case)
      with r show ?thesis by (simp add: t0_def)
    qed
  qed
qed

text \<open>
  C1 fails on the code when two terminal calls overlap. On the sample message, an
  AckSync and an Ack whose sends both succeed: the AckSync loads the flag (0), the Ack
  loads the flag (0), sends and stores 1, then the AckSync sends and stores 1. Both
  calls have sent \<open>+ACK\<close> and both return nil; neither returns ErrInvalidJSAck. The
  flag is read with \<open>atomic.LoadUint32\<close> and written with \<open>atomic.StoreUint32\<close>, not with
  a compare-and-swap.
\<close>

theorem ack_overlap_both_succeed:
  "run_schedule msg0 [start_ack AckAck True [] None, start_ack AckAck False [] None]
     [0, 1, 1, 1, 0, 0]
   = (msg0\<lparr>ackd := 1\<rparr>,
      [\<lparr>t_ackType = AckAck, t_sync = True, t_opts = [], t_sent = None,
        t_pc = Returned None,
        t_calls = [Request ''$JS.ACK.ORDERS.work.1.2.3.1600000000000000000.4'' AckAck 5000000000]\<rparr>,
       \<lparr>t_ackType = AckAck, t_sync = False, t_opts = [], t_sent = None,
        t_pc = Returned None,
        t_calls = [Publish ''$JS.ACK.ORDERS.work.1.2.3.1600000000000000000.4'' AckAck]\<rparr>])"
  by (simp add: thread_step_def start_ack_def msg0_def sub0_def js0_def checkReply_def
      pubOpts_zero_def AckAck_def AckProgress_def Let_def)

text \<open>The same two calls, one after the other: the second returns ErrInvalidJSAck.\<close>

lemma ack_no_overlap_second_fails:
  "map t_pc (snd (run_schedule msg0
       [start_ack AckAck True [] None, start_ack AckAck False [] None] [0, 0, 0, 1, 1, 1]))
   = [Returned None, Returned (Some ErrInvalidJSAck)]"
  by (simp add: thread_step_def start_ack_def msg0_def sub0_def js0_def checkReply_def
      pubOpts_zero_def AckAck_def AckProgress_def Let_def)

subsection \<open>PublishMsg\<close>

lemma word64_pos: "(0 < (w::64 word)) = (w \<noteq> 0)"
  by (simp add: word_neq_0_conv)

lemma set_if_Some:
  "set_if c k v (Returns (Some hm)) = Returns (Some (if c then hm(k \<mapsto> [v]) else hm))"
  by (simp add: set_if_def Header_Set_def)

lemma publish_headers_ttl [simp]: "publish_headers (po\<lparr>pub_ttl := t\<rparr>) h = publish_headers po h"
  by (simp add: publish_headers_def)

lemma publish_headers_Some:
  "publish_headers po (Some hm) =
     Returns (Some (\<lambda>k.
       if k = ExpectedLastSeqHdr \<and> pub_seq po \<noteq> 0 then Some [FormatUint10 (unat (pub_seq po))]
       else if k = ExpectedStreamHdr \<and> pub_str po \<noteq> [] then Some [pub_str po]
       else if k = ExpectedLastMsgIdHdr \<and> pub_lid po \<noteq> [] then Some [pub_lid po]
       else if k = MsgIdHdr \<and> pub_id po \<noteq> [] then Some [pub_id po]
       else hm k))"
  by (auto simp: publish_headers_def set_if_Some word64_pos fun_eq_iff)

lemma publish_headers_None:
  "publish_headers po None =
     (if pub_id po = [] \<and> pub_lid po = [] \<and> pub_str po = [] \<and> pub_seq po = 0
      then Returns None else Panics)"
  by (simp add: publish_headers_def set_if_def Header_Set_def word64_pos)

lemma header_keys_distinct:
  "MsgIdHdr \<noteq> ExpectedLastMsgIdHdr" "MsgIdHdr \<noteq> ExpectedStreamHdr" "MsgIdHdr \<noteq> ExpectedLastSeqHdr"
  "ExpectedLastMsgIdHdr \<noteq> ExpectedStreamHdr" "ExpectedLastMsgIdHdr \<noteq> ExpectedLastSeqHdr"
  "ExpectedStreamHdr \<noteq> ExpectedLastSeqHdr"
  "ExpectedLastMsgIdHdr \<noteq> MsgIdHdr" "ExpectedStreamHdr \<noteq> MsgIdHdr" "ExpectedLastSeqHdr \<noteq> MsgIdHdr"
  "ExpectedStreamHdr \<noteq> ExpectedLastMsgIdHdr" "ExpectedLastSeqHdr \<noteq> ExpectedLastMsgIdHdr"
  "ExpectedLastSeqHdr \<noteq> ExpectedStreamHdr"
  by (simp_all add: MsgIdHdr_def ExpectedLastMsgIdHdr_def ExpectedStreamHdr_def ExpectedLastSeqHdr_def)

text \<open>What the four conditional \<open>Set\<close> calls leave at the four keys.\<close>

lemma publish_headers_values:
  assumes "publish_headers po h = Returns h'"
  shows "Header_values h' ExpectedLastSeqHdr =
           (if pub_seq po = 0 then Header_values h ExpectedLastSeqHdr
            else Some [FormatUint10 (unat (pub_seq po))])
       \<and> Header_values h' MsgIdHdr =
           (if pub_id po = [] then Header_values h MsgIdHdr else Some [pub_id po])
       \<and> Header_values h' ExpectedStreamHdr =
           (if pub_str po = [] then Header_values h ExpectedStreamHdr else Some [pub_str po])
       \<and> Header_values h' ExpectedLastMsgIdHdr =
           (if pub_lid po = [] then Header_values h ExpectedLastMsgIdHdr else Some [pub_lid po])"
proof (cases h)
  case None
  with assms have z: "pub_id po = [] \<and> pub_lid po = [] \<and> pub_str po = [] \<and> pub_seq po = 0" and h': "h' = None"
    by (simp_all add: publish_headers_None split: if_splits)
  with None show ?thesis by simp
next
  case (Some hm)
  with assms have h': "h' = Some (\<lambda>k.
       if k = ExpectedLastSeqHdr \<and> pub_seq po \<noteq> 0 then Some [FormatUint10 (unat (pub_seq po))]
       else if k = ExpectedStreamHdr \<and> pub_str po \<noteq> [] then Some [pub_str po]
       else if k = ExpectedLastMsgIdHdr \<and> pub_lid po \<noteq> [] then Some [pub_lid po]
       else if k = MsgIdHdr \<and> pub_id po \<noteq> [] then Some [pub_id po]
       else hm k)"
    by (simp add: publish_headers_Some)
  show ?thesis
    unfolding h' Some Header_values_def
    by (simp add: header_keys_distinct)
qed

text \<open>The shape of a PublishMsg call that got as far as its request.\<close>

lemma PublishMsg_issued:
  assumes "PublishMsg j u reply m opts = Returns (calls, m', r)"
    and "configurePublish_all opts pubOpts_zero = Inr po"
    and "calls \<noteq> []"
  shows "\<not> (pub_ctx po \<noteq> None \<and> pub_ttl po \<noteq> 0)
    \<and> (\<exists>h0. publish_headers po h0 = Returns (Header m') \<and> (\<forall>k. Header_values h0 k = Header_values (Header m) k))
    \<and> r = publish_reply u reply
    \<and> (\<exists>t c. calls = [RequestMsg m' t] \<or> calls = [RequestMsgWithContext c m'])"
proof -
  let ?m1 = "if length opts > 0 \<and> Header m = None then m\<lparr>Header := Some Map.empty\<rparr> else m"
  from assms have ok: "\<not> (pub_ctx po \<noteq> None \<and> pub_ttl po \<noteq> 0)"
    by (auto simp: PublishMsg_def Let_def split: if_splits)
  obtain hx where hx: "publish_headers po (Header ?m1) = hx" by blast
  from assms ok hx have eq: "hx = Returns (Header m')
      \<and> r = publish_reply u reply
      \<and> (\<exists>t c. calls = [RequestMsg m' t] \<or> calls = [RequestMsgWithContext c m'])"
    by (cases hx) (auto simp: PublishMsg_def Let_def split: if_splits simp del: length_greater_0_conv)
  have "\<forall>k. Header_values (Header ?m1) k = Header_values (Header m) k"
    by (simp add: Header_values_def)
  with eq hx ok show ?thesis by blast
qed


lemma configurePublish_all_append:
  "configurePublish_all (xs @ ys) po =
     (case configurePublish_all xs po of Inl e \<Rightarrow> Inl e | Inr po' \<Rightarrow> configurePublish_all ys po')"
  by (induction xs arbitrary: po) (auto split: prod.splits option.splits)





lemma default_wait_pos: "0 <s (5000000000 :: 64 word)"
  by (simp add: word_sless_alt)

lemma digit_char_simps:
  "digit_char 0 = CHR ''0''" "digit_char 1 = CHR ''1''" "digit_char 2 = CHR ''2''"
  "digit_char 3 = CHR ''3''" "digit_char 4 = CHR ''4''" "digit_char 5 = CHR ''5''"
  "digit_char 6 = CHR ''6''" "digit_char 7 = CHR ''7''" "digit_char 8 = CHR ''8''"
  "digit_char 9 = CHR ''9''"
  by code_simp+

lemma FormatUint10_1234: "FormatUint10 1234 = ''1234''" "FormatUint10 7 = ''7''" "FormatUint10 0 = ''0''"
  by code_simp+

text \<open>
  C5: when PublishMsg has issued its request and received the reply \<open>resp\<close>, it returns
  ErrInvalidJSAck exactly when \<open>json.Unmarshal\<close> of the payload fails, or succeeds with a
  nil error object and a nil PubAck or an empty stream name; when the envelope's error
  object is set it returns \<open>errors.New\<close> of that error's description; otherwise it
  returns the decoded PubAck.
\<close>

theorem publish_ack_validation:
  assumes "PublishMsg j u (Inr resp) m opts = Returns (calls, m', r)" and "calls \<noteq> []"
  shows "(r = Inl ErrInvalidJSAck) =
           (case u (Data resp) of
              Inl _ \<Rightarrow> True
            | Inr pa \<Rightarrow> resp_Error pa = None
                \<and> (case resp_PubAck pa of None \<Rightarrow> True | Some ack \<Rightarrow> ack_Stream ack = []))
    \<and> (\<forall>pa apierr. u (Data resp) = Inr pa \<and> resp_Error pa = Some apierr
          \<longrightarrow> r = Inl (errors_New (Description apierr)))
    \<and> (\<forall>pa ack. u (Data resp) = Inr pa \<and> resp_Error pa = None \<and> resp_PubAck pa = Some ack
          \<and> ack_Stream ack \<noteq> [] \<longrightarrow> r = Inr ack)"
proof -
  obtain po where po: "configurePublish_all opts pubOpts_zero = Inr po"
    using configurePublish_all_total by blast
  from PublishMsg_issued [OF assms(1) po assms(2)]
  have r: "r = publish_reply u (Inr resp)" by blast
  show ?thesis
    unfolding r publish_reply_def
    by (auto split: sum.splits option.splits)
qed

theorem publish_ack_validation_witness:
  "PublishMsg js0 unmarshal0 (Inr reply0) pub0 [MsgId ''abc'']
     = Returns ([RequestMsg (pub0\<lparr>Header := Some [MsgIdHdr \<mapsto> [''abc'']]\<rparr>) 5000000000],
                pub0\<lparr>Header := Some [MsgIdHdr \<mapsto> [''abc'']]\<rparr>, Inr ack0)
   \<and> unmarshal0 (Data reply0) = Inr \<lparr>resp_Error = None, resp_PubAck = Some ack0\<rparr>
   \<and> ack_Stream ack0 \<noteq> []
   \<and> (Inr ack0 :: error + PubAck) \<noteq> Inl ErrInvalidJSAck"
proof -
  have a: "PublishMsg js0 unmarshal0 (Inr reply0) pub0 [MsgId ''abc'']
     = Returns ([RequestMsg (pub0\<lparr>Header := Some [MsgIdHdr \<mapsto> [''abc'']]\<rparr>) 5000000000],
                pub0\<lparr>Header := Some [MsgIdHdr \<mapsto> [''abc'']]\<rparr>, Inr ack0)"
    by (simp add: PublishMsg_def pubOpts_zero_def pub0_def js0_def publish_headers_def set_if_def
        Header_Set_def publish_reply_def reply0_def unmarshal0_def ack0_def Let_def default_wait_pos)
  from publish_ack_validation [OF a] show ?thesis
    using a by (simp add: unmarshal0_def reply0_def ack0_def)
qed

text \<open>
  C10: in the message PublishMsg sends, the four headers are as follows. With an expected
  last sequence of 0 the Nats-Expected-Last-Sequence header is left as the caller's
  message had it (absent, if it was absent); it is set, to the decimal digits, only when
  the sequence is not 0. Likewise Nats-Msg-Id, Nats-Expected-Stream and
  Nats-Expected-Last-Msg-Id are set only when their option value is a non-empty string.
  Options ending in \<open>ExpectLastSequence(0)\<close> configure the sequence 0.
\<close>

theorem publish_headers_only_when_set:
  assumes "PublishMsg j u reply m opts = Returns (calls, m', r)"
    and "configurePublish_all opts pubOpts_zero = Inr po"
    and "calls \<noteq> []"
  shows "(\<exists>t c. calls = [RequestMsg m' t] \<or> calls = [RequestMsgWithContext c m'])
    \<and> Header_values (Header m') ExpectedLastSeqHdr =
         (if pub_seq po = 0 then Header_values (Header m) ExpectedLastSeqHdr
          else Some [FormatUint10 (unat (pub_seq po))])
    \<and> Header_values (Header m') MsgIdHdr =
         (if pub_id po = [] then Header_values (Header m) MsgIdHdr else Some [pub_id po])
    \<and> Header_values (Header m') ExpectedStreamHdr =
         (if pub_str po = [] then Header_values (Header m) ExpectedStreamHdr else Some [pub_str po])
    \<and> Header_values (Header m') ExpectedLastMsgIdHdr =
         (if pub_lid po = [] then Header_values (Header m) ExpectedLastMsgIdHdr else Some [pub_lid po])
    \<and> (\<forall>opts0 po0. configurePublish_all (opts0 @ [ExpectLastSequence 0]) pubOpts_zero = Inr po0
          \<longrightarrow> pub_seq po0 = 0)"
proof -
  from PublishMsg_issued [OF assms]
  obtain h0 where h0: "publish_headers po h0 = Returns (Header m')"
    and same: "\<forall>k. Header_values h0 k = Header_values (Header m) k"
    and calls: "\<exists>t c. calls = [RequestMsg m' t] \<or> calls = [RequestMsgWithContext c m']"
    by blast
  have last: "\<forall>opts0 po0. configurePublish_all (opts0 @ [ExpectLastSequence 0]) pubOpts_zero = Inr po0
          \<longrightarrow> pub_seq po0 = 0"
    by (auto simp: configurePublish_all_append split: sum.splits)
  from publish_headers_values [OF h0] same calls last show ?thesis by simp
qed

theorem publish_headers_only_when_set_witness:
  "PublishMsg js0 unmarshal0 (Inr reply0) pub0 [ExpectLastSequence 0]
     = Returns ([RequestMsg (pub0\<lparr>Header := Some Map.empty\<rparr>) 5000000000],
                pub0\<lparr>Header := Some Map.empty\<rparr>, Inr ack0)
   \<and> configurePublish_all [ExpectLastSequence 0] pubOpts_zero = Inr pubOpts_zero
   \<and> Header_values (Header (pub0\<lparr>Header := Some Map.empty\<rparr>)) ExpectedLastSeqHdr = None"
proof -
  have a: "PublishMsg js0 unmarshal0 (Inr reply0) pub0 [ExpectLastSequence 0]
     = Returns ([RequestMsg (pub0\<lparr>Header := Some Map.empty\<rparr>) 5000000000],
                pub0\<lparr>Header := Some Map.empty\<rparr>, Inr ack0)"
    by (simp add: PublishMsg_def pubOpts_zero_def pub0_def js0_def publish_headers_def set_if_def
        Header_Set_def publish_reply_def reply0_def unmarshal0_def ack0_def Let_def default_wait_pos)
  have b: "configurePublish_all [ExpectLastSequence 0] pubOpts_zero = Inr pubOpts_zero"
    by (simp add: pubOpts_zero_def)
  from publish_headers_only_when_set [OF a b] show ?thesis
    using a b by (simp add: pubOpts_zero_def pub0_def Header_values_def)
qed

text \<open>With a positive sequence the header carries its decimal digits.\<close>

lemma publish_expect_sequence_7:
  "PublishMsg js0 unmarshal0 (Inr reply0) pub0 [ExpectLastSequence 7, ExpectStream ''FOO'']
     = Returns ([RequestMsg (pub0\<lparr>Header := Some [ExpectedStreamHdr \<mapsto> [''FOO''], ExpectedLastSeqHdr \<mapsto> [''7'']]\<rparr>) 5000000000],
                pub0\<lparr>Header := Some [ExpectedStreamHdr \<mapsto> [''FOO''], ExpectedLastSeqHdr \<mapsto> [''7'']]\<rparr>, Inr ack0)"
  by (simp add: PublishMsg_def pubOpts_zero_def pub0_def js0_def publish_headers_def set_if_def
        Header_Set_def publish_reply_def reply0_def unmarshal0_def ack0_def Let_def
        FormatUint10_1234 default_wait_pos)

subsection \<open>Message metadata\<close>

lemma parseNum_loop_non_digit:
  "\<exists>c\<in>set d. non_digit c \<Longrightarrow> parseNum_loop d n = - 1"
  by (induction d arbitrary: n) (auto simp: non_digit_def)

lemma parseNum_non_digit:
  "\<exists>c\<in>set d. non_digit c \<Longrightarrow> parseNum d = - 1"
  by (auto simp: parseNum_def parseNum_loop_non_digit)

lemma parseNum_loop_digits:
  "\<forall>c\<in>set d. \<not> non_digit c \<Longrightarrow> parseNum_loop d (of_nat k) = of_nat (dec_value k d)"
proof (induction d arbitrary: k)
  case Nil
  then show ?case by simp
next
  case (Cons c d)
  then have c: "asciiZero \<le> of_char c" "of_char c \<le> asciiNine"
    by (auto simp: non_digit_def)
  have e: "(of_nat k :: 64 word) * 10 + (of_nat (of_char c) - of_nat asciiZero)
        = of_nat (k * 10 + (of_char c - asciiZero))"
    using c by simp
  have "parseNum_loop (c # d) (of_nat k)
        = parseNum_loop d (of_nat k * 10 + (of_nat (of_char c) - of_nat asciiZero))"
    using c by (simp add: not_less [symmetric])
  also have "\<dots> = parseNum_loop d (of_nat (k * 10 + (of_char c - asciiZero)))"
    by (simp only: e)
  also have "\<dots> = of_nat (dec_value (k * 10 + (of_char c - asciiZero)) d)"
    by (rule Cons.IH) (use Cons.prems in simp)
  finally show ?case by simp
qed

lemma parseNum_digits:
  "d \<noteq> [] \<Longrightarrow> \<forall>c\<in>set d. \<not> non_digit c \<Longrightarrow> parseNum d = of_nat (dec_value 0 d)"
  using parseNum_loop_digits [of d 0] by (simp add: parseNum_def)

lemma split_dots_nonempty: "split_dots s \<noteq> []"
  by (induction s) (auto split: list.splits)


lemma prepend_split_dots_Cons:
  "c \<noteq> CHR ''.'' \<Longrightarrow> prepend p (split_dots (c # cs)) = prepend (p @ [c]) (split_dots cs)"
  using split_dots_nonempty [of cs] by (cases "split_dots cs") auto

lemma split_loop_split_dots:
  "start \<le> i \<Longrightarrow> i \<le> length s \<Longrightarrow>
   (case split_loop s i start tokens of (st', tk') \<Rightarrow> tk' @ [drop st' s])
     = tokens @ prepend (take (i - start) (drop start s)) (split_dots (drop i s))"
proof (induction s i start tokens rule: split_loop.induct)
  case (1 subject i start tokens)
  show ?case
  proof (cases "i < length subject")
    case False
    with 1(4) have "i = length subject" by simp
    then show ?thesis by (simp add: split_loop.simps)
  next
    case True
    then have d: "drop i subject = subject ! i # drop (Suc i) subject"
      by (simp add: Cons_nth_drop_Suc)
    show ?thesis
    proof (cases "subject ! i = CHR ''.''")
      case dot: True
      from 1(1) [OF True dot] True
      have "(case split_loop subject (i + 1) (i + 1) (tokens @ [take (i - start) (drop start subject)])
              of (st', tk') \<Rightarrow> tk' @ [drop st' subject])
            = (tokens @ [take (i - start) (drop start subject)]) @ prepend [] (split_dots (drop (i + 1) subject))"
        by simp
      moreover have "prepend [] (split_dots (drop (i + 1) subject)) = split_dots (drop (i + 1) subject)"
        using split_dots_nonempty [of "drop (i + 1) subject"]
        by (cases "split_dots (drop (i + 1) subject)") auto
      ultimately show ?thesis
        using True dot d by (subst split_loop.simps) simp
    next
      case nodot: False
      from 1(2) [OF True nodot] 1(3) True
      have ih: "(case split_loop subject (i + 1) start tokens of (st', tk') \<Rightarrow> tk' @ [drop st' subject])
            = tokens @ prepend (take (i + 1 - start) (drop start subject)) (split_dots (drop (i + 1) subject))"
        by simp
      have t: "take (i + 1 - start) (drop start subject) = take (i - start) (drop start subject) @ [subject ! i]"
        using 1(3) True by (simp add: Suc_diff_le take_Suc_conv_app_nth)
      show ?thesis
        using True nodot ih d t prepend_split_dots_Cons [OF nodot, of "take (i - start) (drop start subject)" "drop (Suc i) subject"]
        by (subst split_loop.simps) simp
    qed
  qed
qed

lemma subject_tokens_split_dots: "subject_tokens s = split_dots s"
proof -
  have "prepend [] (split_dots s) = split_dots s"
    using split_dots_nonempty [of s] by (cases "split_dots s") auto
  with split_loop_split_dots [of 0 0 s "[]"] show ?thesis
    by (simp add: subject_tokens_def)
qed

lemma split_dots_no_dot: "CHR ''.'' \<notin> set t \<Longrightarrow> split_dots t = [t]"
  by (induction t) auto

lemma split_dots_append_dot:
  "CHR ''.'' \<notin> set t \<Longrightarrow> split_dots (t @ CHR ''.'' # r) = t # split_dots r"
  by (induction t) auto

lemma split_dots_join_dots:
  "ts \<noteq> [] \<Longrightarrow> \<forall>t\<in>set ts. CHR ''.'' \<notin> set t \<Longrightarrow> split_dots (join_dots ts) = ts"
proof (induction ts rule: join_dots.induct)
  case 1
  then show ?case by simp
next
  case (2 t)
  then show ?case by (simp add: split_dots_no_dot)
next
  case (3 t v va)
  then show ?case by (simp add: split_dots_append_dot)
qed

lemma subject_tokens_join_dots:
  "ts \<noteq> [] \<Longrightarrow> \<forall>t\<in>set ts. CHR ''.'' \<notin> set t \<Longrightarrow> subject_tokens (join_dots ts) = ts"
  by (simp add: subject_tokens_split_dots split_dots_join_dots)

lemma join_dots_split_dots: "join_dots (split_dots s) = s"
proof (induction s)
  case Nil
  then show ?case by simp
next
  case (Cons c s)
  obtain t ts where ts: "split_dots s = t # ts"
    using split_dots_nonempty [of s] by (cases "split_dots s") auto
  with Cons show ?case by (cases ts) auto
qed

lemma split_dots_tokens_no_dot: "t \<in> set (split_dots s) \<Longrightarrow> CHR ''.'' \<notin> set t"
proof (induction s arbitrary: t)
  case Nil
  then show ?case by simp
next
  case (Cons c s)
  obtain u us where us: "split_dots s = u # us"
    using split_dots_nonempty [of s] by (cases "split_dots s") auto
  with Cons show ?case by (auto split: if_splits)
qed

lemma checkReply_bound:
  "Sub m = Some s \<Longrightarrow> Reply m \<noteq> [] \<Longrightarrow> snd (snd (checkReply (Some m))) = None"
  by (simp add: checkReply_def split: option.splits)

lemma word64_minus_one: "sint (- 1 :: 64 word) = - 1" "unat (- 1 :: 64 word) = 2 ^ 64 - 1"
  by (simp_all add: unsigned_minus_1_eq_mask mask_eq_exp_minus_1)

text \<open>
  C4, as stated, fails on a delivered message whose reply subject is empty (a status
  message, or a message of a plain subscription): the subject is a single empty token,
  which is the wrong arity, yet \<open>checkReply\<close> answers first and the error is
  ErrMsgNoReply, not ErrNotJSMessage.
\<close>

theorem MetaData_empty_reply:
  "Sub (msg0\<lparr>Reply := []\<rparr>) = Some sub0
   \<and> subject_tokens (Reply (msg0\<lparr>Reply := []\<rparr>)) = [[]]
   \<and> length (subject_tokens (Reply (msg0\<lparr>Reply := []\<rparr>))) \<noteq> 9
   \<and> MetaData (msg0\<lparr>Reply := []\<rparr>) = Inl ErrMsgNoReply
   \<and> MetaData (msg0\<lparr>Reply := []\<rparr>) \<noteq> Inl ErrNotJSMessage"
  by (simp add: msg0_def MetaData_def checkReply_def subject_tokens_split_dots)

text \<open>
  C4, amended: for a message bound to a subscription, MetaData fails with ErrMsgNoReply
  when the reply subject is empty; when it is not empty, MetaData succeeds exactly when
  the tokenizer cuts the subject into 9 tokens of which the first two are \<open>$JS\<close> and
  \<open>ACK\<close>, returning the stream name (token 2) and \<open>parseNum\<close> of tokens 4 to 8, and
  fails with ErrNotJSMessage otherwise. \<open>parseNum\<close> of a token holding a byte that is not
  an ASCII digit is -1 (as a signed 64-bit value; the unsigned fields hold the same bits,
  2^64 - 1); of a non-empty token of digits it is the decimal value modulo 2^64. The
  tokenizer splits at the dots: it returns dot-free tokens joined by dots unchanged.
\<close>

theorem MetaData_ack_subject:
  assumes "Sub m = Some s" and "tokens = subject_tokens (Reply m)"
  shows "(Reply m = [] \<longrightarrow> MetaData m = Inl ErrMsgNoReply)
    \<and> (Reply m \<noteq> [] \<longrightarrow>
         MetaData m =
           (if length tokens = 9 \<and> tokens ! 0 = ''$JS'' \<and> tokens ! 1 = ''ACK''
            then Inr \<lparr>Consumer = parseNum (tokens ! 6), Stream = parseNum (tokens ! 5),
                      Delivered = parseNum (tokens ! 4), Pending = parseNum (tokens ! 8),
                      Timestamp = parseNum (tokens ! 7), StreamName = tokens ! 2\<rparr>
            else Inl ErrNotJSMessage))
    \<and> (\<forall>d. (\<exists>c\<in>set d. non_digit c) \<longrightarrow>
           parseNum d = - 1 \<and> sint (parseNum d) = - 1 \<and> unat (parseNum d) = 2 ^ 64 - 1)
    \<and> (\<forall>d. d \<noteq> [] \<and> (\<forall>c\<in>set d. \<not> non_digit c) \<longrightarrow> parseNum d = of_nat (dec_value 0 d))
    \<and> (\<forall>ts. ts \<noteq> [] \<and> (\<forall>t\<in>set ts. CHR ''.'' \<notin> set t) \<longrightarrow> subject_tokens (join_dots ts) = ts)"
proof -
  have a: "Reply m = [] \<longrightarrow> MetaData m = Inl ErrMsgNoReply"
    using assms(1) by (simp add: MetaData_def checkReply_def)
  have b: "Reply m \<noteq> [] \<longrightarrow>
         MetaData m =
           (if length tokens = 9 \<and> tokens ! 0 = ''$JS'' \<and> tokens ! 1 = ''ACK''
            then Inr \<lparr>Consumer = parseNum (tokens ! 6), Stream = parseNum (tokens ! 5),
                      Delivered = parseNum (tokens ! 4), Pending = parseNum (tokens ! 8),
                      Timestamp = parseNum (tokens ! 7), StreamName = tokens ! 2\<rparr>
            else Inl ErrNotJSMessage)"
    using assms
    by (simp add: MetaData_def checkReply_def expectedTokens_def Let_def split: option.splits)
  have c: "\<forall>d. (\<exists>c\<in>set d. non_digit c) \<longrightarrow>
           parseNum d = - 1 \<and> sint (parseNum d) = - 1 \<and> unat (parseNum d) = 2 ^ 64 - 1"
    using parseNum_non_digit word64_minus_one by metis
  have d: "\<forall>d. d \<noteq> [] \<and> (\<forall>c\<in>set d. \<not> non_digit c) \<longrightarrow> parseNum d = of_nat (dec_value 0 d)"
    by (simp add: parseNum_digits)
  have e: "\<forall>ts. ts \<noteq> [] \<and> (\<forall>t\<in>set ts. CHR ''.'' \<notin> set t) \<longrightarrow> subject_tokens (join_dots ts) = ts"
    by (simp add: subject_tokens_join_dots)
  from a b c d e show ?thesis by blast
qed

lemma msg0_tokens:
  "subject_tokens (Reply msg0) = [''$JS'', ''ACK'', ''ORDERS'', ''work'', ''1'', ''2'', ''3'', ''1600000000000000000'', ''4'']"
  by (simp add: msg0_def subject_tokens_split_dots)

lemma parseNum_samples:
  "parseNum ''1'' = 1" "parseNum ''2'' = 2" "parseNum ''3'' = 3" "parseNum ''4'' = 4"
  "parseNum ''1600000000000000000'' = 1600000000000000000"
  "parseNum ''x1'' = - 1" "parseNum ''1x'' = - 1" "parseNum '''' = - 1"
  by (simp_all add: parseNum_def asciiZero_def asciiNine_def)

theorem MetaData_ack_subject_witness:
  "Sub msg0 = Some sub0 \<and> Reply msg0 \<noteq> []
   \<and> MetaData msg0 = Inr \<lparr>Consumer = 3, Stream = 2, Delivered = 1, Pending = 4,
        Timestamp = 1600000000000000000, StreamName = ''ORDERS''\<rparr>
   \<and> non_digit CHR ''x'' \<and> parseNum ''1x'' = - 1
   \<and> \<not> non_digit CHR ''4'' \<and> parseNum ''4'' = 4
   \<and> subject_tokens (join_dots [''$JS'', ''ACK'']) = [''$JS'', ''ACK'']"
proof -
  have s: "Sub msg0 = Some sub0" and r: "Reply msg0 \<noteq> []"
    by (simp_all add: msg0_def)
  have x: "non_digit CHR ''x''" and y: "\<not> non_digit CHR ''4''"
    by (simp_all add: non_digit_def asciiZero_def asciiNine_def)
  from MetaData_ack_subject [OF s refl]
  have m: "MetaData msg0 = Inr \<lparr>Consumer = 3, Stream = 2, Delivered = 1, Pending = 4,
        Timestamp = 1600000000000000000, StreamName = ''ORDERS''\<rparr>"
    and p: "\<forall>d. (\<exists>c\<in>set d. non_digit c) \<longrightarrow> parseNum d = - 1"
    and q: "\<forall>d. d \<noteq> [] \<and> (\<forall>c\<in>set d. \<not> non_digit c) \<longrightarrow> parseNum d = of_nat (dec_value 0 d)"
    and j: "\<forall>ts. ts \<noteq> [] \<and> (\<forall>t\<in>set ts. CHR ''.'' \<notin> set t) \<longrightarrow> subject_tokens (join_dots ts) = ts"
    using r by (simp_all add: msg0_tokens parseNum_samples)
  from p x have p1: "parseNum ''1x'' = - 1" by simp
  from q y have q1: "parseNum ''4'' = 4" by (simp add: asciiZero_def)
  from j have j1: "subject_tokens (join_dots [''$JS'', ''ACK'']) = [''$JS'', ''ACK'']"
    by (rule allE [where x = "[''$JS'', ''ACK'']"]) simp
  from s r m x p1 y q1 j1 show ?thesis by blast
qed

lemma MetaData_non_digit_token:
  "MetaData (msg0\<lparr>Reply := ''$JS.ACK.ORDERS.work.1.2a.3.4.5''\<rparr>)
     = Inr \<lparr>Consumer = 3, Stream = - 1, Delivered = 1, Pending = 5, Timestamp = 4, StreamName = ''ORDERS''\<rparr>"
  by (simp add: msg0_def sub0_def MetaData_def checkReply_def subject_tokens_split_dots expectedTokens_def
      parseNum_def asciiZero_def asciiNine_def Let_def)

lemma MetaData_wrong_prefix:
  "MetaData (msg0\<lparr>Reply := ''$JS.NAK.ORDERS.work.1.2.3.4.5''\<rparr>) = Inl ErrNotJSMessage"
  "MetaData (msg0\<lparr>Reply := ''$JS.ACK.ORDERS.work.1.2.3.4''\<rparr>) = Inl ErrNotJSMessage"
  "MetaData (msg0\<lparr>Reply := ''_INBOX.abc''\<rparr>) = Inl ErrNotJSMessage"
  by (simp_all add: msg0_def sub0_def MetaData_def checkReply_def subject_tokens_split_dots expectedTokens_def
      Let_def)

text \<open>The 64-bit arithmetic wraps: twenty digits can also parse to -1.\<close>

lemma parseNum_wraps:
  "parseNum ''18446744073709551615'' = - 1"
  by (simp add: parseNum_def asciiZero_def asciiNine_def)

subsection \<open>Fetch\<close>

lemma configurePull_all_total: "\<exists>po'. configurePull_all opts po = Inr po'"
proof (induction opts arbitrary: po)
  case Nil
  then show ?case by simp
next
  case (Cons a opts)
  then show ?case by (cases a) auto
qed





text \<open>The loop never returns more than \<open>batch\<close> messages when it starts below \<open>batch\<close>.\<close>

lemma collect_bound:
  "collect po batch err msgs evs = Returns (ms, e) \<Longrightarrow> int (length msgs) < batch
   \<Longrightarrow> \<exists>l. ms = Some l \<and> int (length l) \<le> batch"
proof (induction po batch err msgs evs rule: collect.induct)
  case (1 po batch err msgs)
  then show ?case by simp
next
  case (2 po batch err msgs e evs)
  then show ?case by auto
next
  case (3 po batch err msgs msg perr evs)
  then show ?case by (auto simp: Let_def split: if_splits option.splits)
next
  case (4 po batch err msgs gerr evs)
  then show ?case by (auto split: if_splits)
qed

lemma with_calls_Returns:
  "with_calls made deferred r = Returns (calls, ms, e) \<Longrightarrow> r = Returns (ms, e)"
  by (cases r) (auto simp: with_calls_def)

lemma with_collect_bound:
  assumes "with_calls made deferred (collect po batch err [fm] evs) = Returns (calls, Some l, e)"
    and "2 \<le> batch"
  shows "int (length l) \<le> batch"
proof -
  from assms(1) have "collect po batch err [fm] evs = Returns (Some l, e)"
    by (rule with_calls_Returns)
  with assms(2) collect_bound [of po batch err "[fm]" evs "Some l" e] show ?thesis by auto
qed

lemma fetch_batch_bound:
  assumes "fetch_batch env po reqNext nr expires batch = Returns (calls, Some l, e)" and "2 \<le> batch"
  shows "int (length l) \<le> batch"
  using assms unfolding fetch_batch_def Let_def
  by (auto split: option.splits list.splits prod.splits if_splits
      dest: with_collect_bound simp del: collect.simps)

lemma fetch_one_result:
  assumes "fetch_one env po c reqNext nr expires = r"
  shows "\<exists>calls ms e. r = Returns (calls, ms, e) \<and> calls \<noteq> []
     \<and> (e = None \<longrightarrow> (\<exists>resp. ms = Some [Some resp]))
     \<and> (e \<noteq> None \<longrightarrow> ms = None)"
  using assms unfolding fetch_one_def Let_def checkCtxErr_def
  by (auto split: sum.splits option.splits if_splits)

text \<open>The checks Fetch makes before it reaches one of its two paths.\<close>

lemma Fetch_paths:
  assumes "Fetch so env batch opts = Returns (calls, ms, e)"
  shows "calls = [] \<and> ms = None \<and> e \<noteq> None
    \<or> (\<exists>sub ji po. so = Some sub \<and> jsi sub = Some ji \<and> sub_typ sub = PullSubscription
          \<and> configurePull_all opts pullOpts_zero = Inr po
          \<and> \<not> (pull_ctx po \<noteq> None \<and> pull_ttl po \<noteq> 0) \<and> ctx_done env = None
          \<and> (if batch = 1
              then fetch_one env po (fetch_ctx (jsi_js ji) po)
                     (apiSubj (jsi_js ji) (apiRequestNext (stream ji) (consumer ji)))
                     \<lparr>Expires = 0, Batch = batch, NoWait = True\<rparr>
                     (fetch_ttl (jsi_js ji) po - 10 * Millisecond)
              else fetch_batch env po
                     (apiSubj (jsi_js ji) (apiRequestNext (stream ji) (consumer ji)))
                     \<lparr>Expires = 0, Batch = batch, NoWait = True\<rparr>
                     (fetch_ttl (jsi_js ji) po - 10 * Millisecond) batch)
            = Returns (calls, ms, e))"
  using assms unfolding Fetch_def Let_def
  by (auto split: option.splits sum.splits if_splits) (rule exI, rule sym, assumption)+

lemma Fetch_pull:
  assumes "jsi sub = Some ji" and "sub_typ sub = PullSubscription"
    and "configurePull_all opts pullOpts_zero = Inr po"
    and "\<not> (pull_ctx po \<noteq> None \<and> pull_ttl po \<noteq> 0)" and "ctx_done env = None"
  shows "Fetch (Some sub) env batch opts =
          (if batch = 1
           then fetch_one env po (fetch_ctx (jsi_js ji) po)
                  (apiSubj (jsi_js ji) (apiRequestNext (stream ji) (consumer ji)))
                  \<lparr>Expires = 0, Batch = batch, NoWait = True\<rparr>
                  (fetch_ttl (jsi_js ji) po - 10 * Millisecond)
           else fetch_batch env po
                  (apiSubj (jsi_js ji) (apiRequestNext (stream ji) (consumer ji)))
                  \<lparr>Expires = 0, Batch = batch, NoWait = True\<rparr>
                  (fetch_ttl (jsi_js ji) po - 10 * Millisecond) batch)"
  using assms unfolding Fetch_def Let_def by auto

text \<open>The single-message path makes no select: it always returns.\<close>

lemma Fetch_single_returns: "\<exists>r. Fetch so env 1 opts = Returns r"
proof -
  obtain po where po: "configurePull_all opts pullOpts_zero = Inr po"
    using configurePull_all_total by blast
  have f: "\<exists>r. fetch_one env po c reqNext nr expires = Returns r" for c reqNext nr expires
    using fetch_one_result [of env po c reqNext nr expires, OF refl] by blast
  show ?thesis
    using po f unfolding Fetch_def Let_def
    by (auto split: option.splits)
qed

text \<open>
  C2: whenever Fetch with \<open>batch >= 1\<close> returns a message slice, the slice holds at most
  \<open>batch\<close> messages; and with \<open>batch = 1\<close> a return with a nil error carries a slice of
  exactly one message.
\<close>

theorem Fetch_at_most_batch:
  assumes "Fetch so env batch opts = Returns (calls, ms, e)" and "1 \<le> batch"
  shows "(\<forall>l. ms = Some l \<longrightarrow> int (length l) \<le> batch)
    \<and> (batch = 1 \<longrightarrow> e = None \<longrightarrow> (\<exists>resp. ms = Some [Some resp]))"
proof -
  have a: "\<forall>l. ms = Some l \<longrightarrow> int (length l) \<le> batch"
  proof (intro allI impI)
    fix l assume l: "ms = Some l"
    from Fetch_paths [OF assms(1)] l
    obtain po c reqNext nr expires where
      p: "(if batch = 1 then fetch_one env po c reqNext nr expires
           else fetch_batch env po reqNext nr expires batch) = Returns (calls, Some l, e)"
      by auto
    show "int (length l) \<le> batch"
    proof (cases "batch = 1")
      case True
      with p fetch_one_result [of env po c reqNext nr expires "Returns (calls, Some l, e)"]
      show ?thesis by auto
    next
      case False
      with assms(2) have "2 \<le> batch" by simp
      with p False fetch_batch_bound show ?thesis by auto
    qed
  qed
  have b: "batch = 1 \<longrightarrow> e = None \<longrightarrow> (\<exists>resp. ms = Some [Some resp])"
  proof (intro impI)
    assume one: "batch = 1" and ok: "e = None"
    from Fetch_paths [OF assms(1)] one ok
    obtain po c reqNext nr expires where
      "fetch_one env po c reqNext nr expires = Returns (calls, ms, e)"
      by auto
    from fetch_one_result [OF this] ok show "\<exists>resp. ms = Some [Some resp]" by auto
  qed
  from a b show ?thesis by blast
qed

lemma data_msg_ok: "payload \<noteq> [] \<Longrightarrow> checkMsg (data_msg payload) = None"
  by (simp add: checkMsg_def data_msg_def)

lemma status_msg_408:
  "checkMsg (status_msg ''408'' descr) = Some (errors_New descr)"
  by (simp add: checkMsg_def status_msg_def Header_Get_def statusHdr_def descrHdr_def
      noResponders_def noMessages_def)

lemma status_msg_404:
  "checkMsg (status_msg ''404'' descr) = Some errNoMessages"
  by (simp add: checkMsg_def status_msg_def Header_Get_def statusHdr_def descrHdr_def
      noResponders_def noMessages_def)

lemma Fetch_env0_10:
  "Fetch (Some pullsub0) env0 10 [] =
     Returns ([subscribe ''_INBOX.3'',
               publish ''$JS.API.CONSUMER.MSG.NEXT.ORDERS.work'' ''_INBOX.3'' ''nowait'',
               AutoUnsubscribe 10, Unsubscribe],
              Some [Some (data_msg ''a''), Some (data_msg ''b''), Some (data_msg ''c'')], None)"
  by (simp add: Fetch_def pullsub0_def pullOpts_zero_def env0_def js0_def fetch_batch_def
      with_calls_def data_msg_ok status_msg_408 apiSubj_def apiRequestNext_def Let_def)

lemma Fetch_env0_2:
  "Fetch (Some pullsub0) env0 2 [] =
     Returns ([subscribe ''_INBOX.3'',
               publish ''$JS.API.CONSUMER.MSG.NEXT.ORDERS.work'' ''_INBOX.3'' ''nowait'',
               AutoUnsubscribe 2, Unsubscribe],
              Some [Some (data_msg ''a''), Some (data_msg ''b'')], None)"
  by (simp add: Fetch_def pullsub0_def pullOpts_zero_def env0_def js0_def fetch_batch_def
      with_calls_def data_msg_ok status_msg_408 apiSubj_def apiRequestNext_def Let_def)

lemma Fetch_env0_1:
  "Fetch (Some pullsub0) (env0\<lparr>reply1 := Inr (data_msg ''a'')\<rparr>) 1 [] =
     Returns ([RequestWithContext (WithTimeout 5000000000) ''$JS.API.CONSUMER.MSG.NEXT.ORDERS.work'' ''nowait''],
              Some [Some (data_msg ''a'')], None)"
  by (simp add: Fetch_def pullsub0_def pullOpts_zero_def env0_def js0_def fetch_one_def
      fetch_ctx_def fetch_ttl_def
      data_msg_ok status_msg_408 apiSubj_def apiRequestNext_def Let_def)

theorem Fetch_at_most_batch_witness:
  "Fetch (Some pullsub0) env0 2 [] =
     Returns ([subscribe ''_INBOX.3'',
               publish ''$JS.API.CONSUMER.MSG.NEXT.ORDERS.work'' ''_INBOX.3'' ''nowait'',
               AutoUnsubscribe 2, Unsubscribe],
              Some [Some (data_msg ''a''), Some (data_msg ''b'')], None)
   \<and> (1::int) \<le> 2
   \<and> int (length [Some (data_msg ''a''), Some (data_msg ''b'')]) \<le> 2
   \<and> Fetch (Some pullsub0) (env0\<lparr>reply1 := Inr (data_msg ''a'')\<rparr>) 1 [] =
     Returns ([RequestWithContext (WithTimeout 5000000000) ''$JS.API.CONSUMER.MSG.NEXT.ORDERS.work'' ''nowait''],
              Some [Some (data_msg ''a'')], None)"
  using Fetch_at_most_batch [OF Fetch_env0_2] Fetch_at_most_batch [OF Fetch_env0_1]
    Fetch_env0_2 Fetch_env0_1
  by simp

lemma checkMsg_not_deadline: "checkMsg msg \<noteq> Some context_DeadlineExceeded"
  by (simp add: checkMsg_def Let_def)

lemma checkCtxErr_checkMsg: "checkMsg msg = Some e \<Longrightarrow> checkCtxErr po (Some e) = Some e"
  using checkMsg_not_deadline [of msg] by (auto simp: checkCtxErr_def)

text \<open>The loop never panics, and it returns once the context is done.\<close>

lemma collect_not_Panics: "collect po batch err msgs evs \<noteq> Panics"
  by (induction po batch err msgs evs rule: collect.induct) (auto simp: Let_def)

lemma collect_returns_when_done:
  "Done e \<in> set evs \<Longrightarrow> \<exists>r. collect po batch err msgs evs = Returns r"
  by (induction po batch err msgs evs rule: collect.induct) (auto simp: Let_def)

text \<open>
  The loop on data messages followed by a message that yields an error: it stops there
  and returns what it has, with a nil error.
\<close>

lemma collect_status:
  "\<forall>d\<in>set ds. checkMsg d = None \<Longrightarrow> int (length msgs + length ds) < batch
   \<Longrightarrow> perr \<noteq> None \<or> checkMsg st \<noteq> None
   \<Longrightarrow> collect po batch err msgs (map (\<lambda>d. Recv d None) ds @ Recv st perr # rest)
       = Returns (Some (msgs @ map Some ds), None)"
proof (induction ds arbitrary: msgs err)
  case Nil
  then show ?case by (auto simp: Let_def split: option.splits)
next
  case (Cons d ds)
  from Cons.prems have "collect po batch None (msgs @ [Some d]) (map (\<lambda>d. Recv d None) ds @ Recv st perr # rest)
       = Returns (Some ((msgs @ [Some d]) @ map Some ds), None)"
    by (intro Cons.IH) auto
  with Cons.prems show ?case by (auto simp: Let_def)
qed

text \<open>
  C3: on the multi-message path (\<open>batch > 1\<close>), when the subscription, the publish and
  the auto-unsubscribe succeed and the server delivers at least one data message (fewer
  than \<open>batch\<close>) and then a status message, Fetch returns exactly the data messages
  with a nil error; the same holds when the pull first met a 404 and went through the
  long-poll request. On the single-message path the same status message is returned as
  the error, with no messages, when it answers the first request (a status other than
  404, which starts the long-poll retry) and when it answers the long-poll retry.
\<close>

theorem Fetch_status_mid_batch:
  assumes "jsi sub = Some ji" and "sub_typ sub = PullSubscription"
    and "configurePull_all opts pullOpts_zero = Inr po"
    and "\<not> (pull_ctx po \<noteq> None \<and> pull_ttl po \<noteq> 0)"
    and "ctx_done env = None"
    and "checkMsg st = Some serr"
  shows "(1 < batch \<and> int (length (d # ds)) < batch \<and> (\<forall>x\<in>set (d # ds). checkMsg x = None)
          \<and> subscribe_err env = None \<and> publish_err1 env = None \<and> autounsub_err env = None
          \<and> events env = map (\<lambda>x. Recv x None) (d # ds) @ Recv st None # rest
          \<longrightarrow> (\<exists>calls. Fetch (Some sub) env batch opts = Returns (calls, Some (map Some (d # ds)), None)))
    \<and> (1 < batch \<and> int (length (d # ds)) < batch \<and> (\<forall>x\<in>set (d # ds). checkMsg x = None)
          \<and> subscribe_err env = None \<and> publish_err1 env = None \<and> autounsub_err env = None
          \<and> publish_err2 env = None \<and> checkMsg nomsg = Some errNoMessages
          \<and> events env = Recv nomsg None # map (\<lambda>x. Recv x None) (d # ds) @ Recv st None # rest
          \<longrightarrow> (\<exists>calls. Fetch (Some sub) env batch opts = Returns (calls, Some (map Some (d # ds)), None)))
    \<and> (reply1 env = Inr st \<and> serr \<noteq> errNoMessages
          \<longrightarrow> (\<exists>calls. Fetch (Some sub) env 1 opts = Returns (calls, None, Some serr)))
    \<and> (checkMsg nomsg = Some errNoMessages \<and> reply1 env = Inr nomsg \<and> reply2 env = Inr st
          \<longrightarrow> (\<exists>calls. Fetch (Some sub) env 1 opts = Returns (calls, None, Some serr)))"
proof -
  note F = Fetch_pull [OF assms(1-5)]
  have st: "None \<noteq> None \<or> checkMsg st \<noteq> None" using assms(6) by simp
  have loop: "collect po batch e [Some d] (map (\<lambda>x. Recv x None) ds @ Recv st None # rest)
       = Returns (Some ([Some d] @ map Some ds), None)"
    if "int (length (d # ds)) < batch" and "\<forall>x\<in>set (d # ds). checkMsg x = None" for e
    using that by (intro collect_status [OF _ _ st]) simp_all
  have a: "1 < batch \<and> int (length (d # ds)) < batch \<and> (\<forall>x\<in>set (d # ds). checkMsg x = None)
          \<and> subscribe_err env = None \<and> publish_err1 env = None \<and> autounsub_err env = None
          \<and> events env = map (\<lambda>x. Recv x None) (d # ds) @ Recv st None # rest
          \<longrightarrow> (\<exists>calls. Fetch (Some sub) env batch opts = Returns (calls, Some (map Some (d # ds)), None))"
  proof
    assume h: "1 < batch \<and> int (length (d # ds)) < batch \<and> (\<forall>x\<in>set (d # ds). checkMsg x = None)
          \<and> subscribe_err env = None \<and> publish_err1 env = None \<and> autounsub_err env = None
          \<and> events env = map (\<lambda>x. Recv x None) (d # ds) @ Recv st None # rest"
    then have l: "collect po batch None [Some d] (map (\<lambda>x. Recv x None) ds @ Recv st None # rest)
       = Returns (Some ([Some d] @ map Some ds), None)"
      by (intro loop) blast+
    from h have d: "checkMsg d = None" by simp
    from h l d show "\<exists>calls. Fetch (Some sub) env batch opts = Returns (calls, Some (map Some (d # ds)), None)"
      by (simp add: F fetch_batch_def Let_def with_calls_def del: collect.simps)
  qed
  have b: "1 < batch \<and> int (length (d # ds)) < batch \<and> (\<forall>x\<in>set (d # ds). checkMsg x = None)
          \<and> subscribe_err env = None \<and> publish_err1 env = None \<and> autounsub_err env = None
          \<and> publish_err2 env = None \<and> checkMsg nomsg = Some errNoMessages
          \<and> events env = Recv nomsg None # map (\<lambda>x. Recv x None) (d # ds) @ Recv st None # rest
          \<longrightarrow> (\<exists>calls. Fetch (Some sub) env batch opts = Returns (calls, Some (map Some (d # ds)), None))"
  proof
    assume h: "1 < batch \<and> int (length (d # ds)) < batch \<and> (\<forall>x\<in>set (d # ds). checkMsg x = None)
          \<and> subscribe_err env = None \<and> publish_err1 env = None \<and> autounsub_err env = None
          \<and> publish_err2 env = None \<and> checkMsg nomsg = Some errNoMessages
          \<and> events env = Recv nomsg None # map (\<lambda>x. Recv x None) (d # ds) @ Recv st None # rest"
    then have l: "collect po batch None [Some d] (map (\<lambda>x. Recv x None) ds @ Recv st None # rest)
       = Returns (Some ([Some d] @ map Some ds), None)"
      by (intro loop) blast+
    from h have d: "checkMsg d = None" by simp
    from h l d show "\<exists>calls. Fetch (Some sub) env batch opts = Returns (calls, Some (map Some (d # ds)), None)"
      by (simp add: F fetch_batch_def Let_def with_calls_def del: collect.simps)
  qed
  have c: "reply1 env = Inr st \<and> serr \<noteq> errNoMessages
          \<longrightarrow> (\<exists>calls. Fetch (Some sub) env 1 opts = Returns (calls, None, Some serr))"
    using assms(6) checkCtxErr_checkMsg [OF assms(6), of po]
    by (simp add: F fetch_one_def Let_def)
  have e: "checkMsg nomsg = Some errNoMessages \<and> reply1 env = Inr nomsg \<and> reply2 env = Inr st
          \<longrightarrow> (\<exists>calls. Fetch (Some sub) env 1 opts = Returns (calls, None, Some serr))"
    using assms(6)
    by (simp add: F fetch_one_def Let_def)
  from a b c e show ?thesis by blast
qed

theorem Fetch_status_mid_batch_witness:
  "(\<exists>calls. Fetch (Some pullsub0) env0 10 [] =
      Returns (calls, Some [Some (data_msg ''a''), Some (data_msg ''b''), Some (data_msg ''c'')], None))
   \<and> (\<exists>calls. Fetch (Some pullsub0) env0 1 [] =
      Returns (calls, None, Some (errors_New ''Request Timeout'')))"
proof -
  have f1: "jsi pullsub0 = Some \<lparr>jsi_js = js0, consumer = ''work'', stream = ''ORDERS'', deliver = [],
       pull = True, durable = True, attached = False\<rparr>"
    and f2: "sub_typ pullsub0 = PullSubscription"
    by (simp_all add: pullsub0_def)
  have f3: "configurePull_all [] pullOpts_zero = Inr pullOpts_zero" by simp
  have f4: "\<not> (pull_ctx pullOpts_zero \<noteq> None \<and> pull_ttl pullOpts_zero \<noteq> 0)"
    by (simp add: pullOpts_zero_def)
  have f5: "ctx_done env0 = None"
    by (simp add: env0_def)
  have f6: "checkMsg (status_msg ''408'' ''Request Timeout'') = Some (errors_New ''Request Timeout'')"
    by (rule status_msg_408)
  from Fetch_status_mid_batch [OF f1 f2 f3 f4 f5 f6, of 10 "data_msg ''a''" "[data_msg ''b'', data_msg ''c'']" "[]"]
  show ?thesis by (simp add: env0_def data_msg_ok)
qed

subsection \<open>Context and timeout\<close>




end
